theory Spec2Isabelle
  imports Main "HOL-Library.Word"
begin

unbundle bit_operations_syntax

section \<open>touch: the time-specification parser and the timestamp policy\<close>

text \<open>
  A shallow embedding of \<^verbatim>\<open>src/touch.c\<close>. Every function of the program keeps its
  name. The program is written against the C library and the operating system; what it
  calls there is either a field of the record \<open>platform\<close> (the calls whose outcome depends
  on the host: \<^verbatim>\<open>malloc\<close>, \<^verbatim>\<open>setenv\<close>, \<^verbatim>\<open>mktime\<close>, \<^verbatim>\<open>stat\<close>, \<^verbatim>\<open>open\<close>,
  \<^verbatim>\<open>creat\<close>, \<^verbatim>\<open>futimens\<close>, \<^verbatim>\<open>utimensat\<close>, the error status of \<^verbatim>\<open>strtod\<close>, the
  value of \<^verbatim>\<open>LONG_MAX\<close>) or a function defined below from its standard
  (\<^verbatim>\<open>strptime\<close>, the conversion done by \<^verbatim>\<open>strtod\<close>, binary64 arithmetic).
\<close>

subsection \<open>Data\<close>

text \<open>\<^verbatim>\<open>struct timespec\<close>: \<^verbatim>\<open>time_t tv_sec; long tv_nsec\<close>.\<close>

record timespec =
  tv_sec :: int
  tv_nsec :: int

text \<open>
  \<^verbatim>\<open>struct tm\<close>. The fields \<^verbatim>\<open>tm_wday\<close> and \<^verbatim>\<open>tm_yday\<close> are left out: the program
  never reads them and \<^verbatim>\<open>mktime\<close> ignores them on input.
\<close>

record tm =
  tm_sec :: int
  tm_min :: int
  tm_hour :: int
  tm_mday :: int
  tm_mon :: int
  tm_year :: int
  tm_isdst :: int

text \<open>
  \<^verbatim>\<open>struct touch\<close>. The array \<^verbatim>\<open>time_am[2]\<close> is a pair: the first component is
  \<^verbatim>\<open>time_am[0]\<close> (access), the second \<^verbatim>\<open>time_am[1]\<close> (modification).
\<close>

record touch =
  flags :: "32 word"
  status_code :: int
  time_am :: "timespec \<times> timespec"

definition TOUCH_FLAG_ACCESS_TIME :: "32 word" where "TOUCH_FLAG_ACCESS_TIME = push_bit 0 1"
definition TOUCH_FLAG_NO_CREATE :: "32 word" where "TOUCH_FLAG_NO_CREATE = push_bit 1 1"
definition TOUCH_FLAG_MOD_TIME :: "32 word" where "TOUCH_FLAG_MOD_TIME = push_bit 2 1"
definition TOUCH_FLAG_REF_FILE :: "32 word" where "TOUCH_FLAG_REF_FILE = push_bit 3 1"
definition TOUCH_FLAG_TIME :: "32 word" where "TOUCH_FLAG_TIME = push_bit 4 1"
definition TOUCH_FLAG_DATE_TIME :: "32 word" where "TOUCH_FLAG_DATE_TIME = push_bit 5 1"

definition EXIT_SUCCESS :: int where "EXIT_SUCCESS = 0"
definition EXIT_FAILURE :: int where "EXIT_FAILURE = 1"

text \<open>
  The two nanosecond sentinels of \<^verbatim>\<open>futimens\<close> and \<^verbatim>\<open>utimensat\<close>, with the values of
  the Linux headers: \<^verbatim>\<open>((1l << 30) - 1l)\<close> and \<^verbatim>\<open>((1l << 30) - 2l)\<close>.
\<close>

definition UTIME_NOW :: int where "UTIME_NOW = 2 ^ 30 - 1"
definition UTIME_OMIT :: int where "UTIME_OMIT = 2 ^ 30 - 2"

text \<open>What the program hands to the operating system to change a file.\<close>

datatype syscall =
  Creat string
  | Futimens string "timespec \<times> timespec"
  | Utimensat string "timespec \<times> timespec"

datatype open_result = Opened | Open_ENOENT | Open_failed

text \<open>
  The process state outside \<^verbatim>\<open>struct touch\<close>: the \<^verbatim>\<open>TZ\<close> environment variable, the
  warnings written to standard error (the flag \<^verbatim>\<open>errno_msg\<close> and the message, in
  order), the file-scope variable \<^verbatim>\<open>MAX_FRAC_CHAR_LEN\<close>, and the calls that changed
  files.
\<close>

record world =
  env_TZ :: "string option"
  stderr :: "(bool \<times> string) list"
  MAX_FRAC_CHAR_LEN :: nat
  syscalls :: "syscall list"

text \<open>
  The host. \<open>strtod_errno\<close> is the value \<^verbatim>\<open>strtod\<close> leaves in \<^verbatim>\<open>errno\<close> for a
  string (0 when it reports no error); \<open>mktime\<close> takes the current value of \<^verbatim>\<open>TZ\<close>
  and returns \<open>-1\<close> when it fails.
\<close>

record platform =
  LONG_MAX :: int
  malloc_ok :: bool
  setenv_ok :: bool
  strtod_errno :: "string \<Rightarrow> int"
  mktime :: "string option \<Rightarrow> tm \<Rightarrow> int"
  sys_stat :: "string \<Rightarrow> (timespec \<times> timespec) option"
  sys_open :: "string \<Rightarrow> open_result"
  creat_ok :: "string \<Rightarrow> bool"
  futimens_ok :: "string \<Rightarrow> timespec \<times> timespec \<Rightarrow> bool"
  utimensat_ok :: "string \<Rightarrow> timespec \<times> timespec \<Rightarrow> bool"

subsection \<open>Characters and C strings\<close>

text \<open>
  A C string is the list of its characters before the terminator; reading at the
  position of the terminator gives the NUL character. The program never reads further.
\<close>

definition c_at :: "string \<Rightarrow> nat \<Rightarrow> char" where
  "c_at s i = (if i < length s then s ! i else CHR 0x00)"

definition isdigit :: "char \<Rightarrow> bool" where
  "isdigit c = (48 \<le> (of_char c :: nat) \<and> (of_char c :: nat) \<le> 57)"

text \<open>\<^verbatim>\<open>isspace\<close> in the C locale: space, \<^verbatim>\<open>\t \n \v \f \r\<close>.\<close>

definition isspace :: "char \<Rightarrow> bool" where
  "isspace c = (c = CHR '' '' \<or> (9 \<le> (of_char c :: nat) \<and> (of_char c :: nat) \<le> 13))"

definition digit_val :: "char \<Rightarrow> int" where
  "digit_val c = int (of_char c) - 48"

subsection \<open>\<^verbatim>\<open>touch_warn\<close>\<close>

definition touch_warn :: "touch \<times> world \<Rightarrow> bool \<Rightarrow> string \<Rightarrow> touch \<times> world" where
  "touch_warn tw errno_msg fmt =
     ((fst tw)\<lparr>status_code := EXIT_FAILURE\<rparr>,
      (snd tw)\<lparr>stderr := stderr (snd tw) @ [(errno_msg, fmt)]\<rparr>)"

subsection \<open>\<^verbatim>\<open>strptime\<close>\<close>

text \<open>
  \<^verbatim>\<open>strptime\<close> belongs to the C library. The model follows POSIX and the GNU C
  library's implementation for the directives the program's format strings can hold:
  white space, ordinary characters, and the conversions C, d, H, m, M, S, T, y, Y. Any
  other conversion is reported as a failure.

  A numeric conversion (\<^verbatim>\<open>get_number(from, to, n)\<close>) skips white space, needs one
  digit, and reads on while fewer than \<open>n\<close> digits are read, ten times the value does not
  exceed \<open>to\<close>, and a digit follows; the value must lie in \<open>[from, to]\<close>.
\<close>

fun get_digits :: "nat \<Rightarrow> int \<Rightarrow> int \<Rightarrow> string \<Rightarrow> int \<times> string" where
  "get_digits n hi val [] = (val, [])"
| "get_digits n hi val (c # rp) =
     (let val' = val * 10 + digit_val c in
      if n - 1 > 0 \<and> val' * 10 \<le> hi \<and> rp \<noteq> [] \<and> isdigit (hd rp)
      then get_digits (n - 1) hi val' rp
      else (val', rp))"

definition get_number :: "int \<Rightarrow> int \<Rightarrow> nat \<Rightarrow> string \<Rightarrow> (int \<times> string) option" where
  "get_number lo hi n rp0 =
     (let rp = dropWhile isspace rp0 in
      if rp = [] \<or> \<not> isdigit (hd rp) then None
      else (case get_digits n hi 0 rp of (val, rp') \<Rightarrow>
              if val < lo \<or> val > hi then None else Some (val, rp')))"

definition match_char :: "char \<Rightarrow> string \<Rightarrow> string option" where
  "match_char ch rp = (case rp of [] \<Rightarrow> None | c # rp' \<Rightarrow> if ch = c then Some rp' else None)"

text \<open>
  The part of \<^verbatim>\<open>struct __strptime_state\<close> that these conversions use: the century
  (\<open>-1\<close> while none was read) and whether a two-digit year wants it.
\<close>

record strptime_state =
  century :: int
  want_century :: bool

text \<open>One conversion specification. \<^verbatim>\<open>%T\<close> stands for \<^verbatim>\<open>%H:%M:%S\<close>.\<close>

definition strptime_conv ::
  "char \<Rightarrow> string \<Rightarrow> tm \<times> strptime_state \<Rightarrow> (string \<times> tm \<times> strptime_state) option" where
  "strptime_conv c rp ts =
     (case ts of (tm, s) \<Rightarrow>
      if c = CHR ''C'' then
        (case get_number 0 99 2 rp of None \<Rightarrow> None
         | Some (val, rp') \<Rightarrow> Some (rp', tm, s\<lparr>century := val\<rparr>))
      else if c = CHR ''d'' then
        (case get_number 1 31 2 rp of None \<Rightarrow> None
         | Some (val, rp') \<Rightarrow> Some (rp', tm\<lparr>tm_mday := val\<rparr>, s))
      else if c = CHR ''H'' then
        (case get_number 0 23 2 rp of None \<Rightarrow> None
         | Some (val, rp') \<Rightarrow> Some (rp', tm\<lparr>tm_hour := val\<rparr>, s))
      else if c = CHR ''m'' then
        (case get_number 1 12 2 rp of None \<Rightarrow> None
         | Some (val, rp') \<Rightarrow> Some (rp', tm\<lparr>tm_mon := val - 1\<rparr>, s))
      else if c = CHR ''M'' then
        (case get_number 0 59 2 rp of None \<Rightarrow> None
         | Some (val, rp') \<Rightarrow> Some (rp', tm\<lparr>tm_min := val\<rparr>, s))
      else if c = CHR ''S'' then
        (case get_number 0 61 2 rp of None \<Rightarrow> None
         | Some (val, rp') \<Rightarrow> Some (rp', tm\<lparr>tm_sec := val\<rparr>, s))
      else if c = CHR ''T'' then
        (case get_number 0 23 2 rp of None \<Rightarrow> None
         | Some (h, rp1) \<Rightarrow>
        (case match_char CHR '':'' rp1 of None \<Rightarrow> None
         | Some rp2 \<Rightarrow>
        (case get_number 0 59 2 rp2 of None \<Rightarrow> None
         | Some (mi, rp3) \<Rightarrow>
        (case match_char CHR '':'' rp3 of None \<Rightarrow> None
         | Some rp4 \<Rightarrow>
        (case get_number 0 61 2 rp4 of None \<Rightarrow> None
         | Some (sec, rp5) \<Rightarrow>
             Some (rp5, tm\<lparr>tm_hour := h, tm_min := mi, tm_sec := sec\<rparr>, s))))))
      else if c = CHR ''y'' then
        (case get_number 0 99 2 rp of None \<Rightarrow> None
         | Some (val, rp') \<Rightarrow>
             Some (rp', tm\<lparr>tm_year := (if val \<ge> 69 then val else val + 100)\<rparr>,
                   s\<lparr>want_century := True\<rparr>))
      else if c = CHR ''Y'' then
        (case get_number 0 9999 4 rp of None \<Rightarrow> None
         | Some (val, rp') \<Rightarrow>
             Some (rp', tm\<lparr>tm_year := val - 1900\<rparr>, s\<lparr>want_century := False\<rparr>))
      else None)"

text \<open>The loop over the format string.\<close>

fun strptime_internal ::
  "string \<Rightarrow> string \<Rightarrow> tm \<times> strptime_state \<Rightarrow> (string \<times> tm \<times> strptime_state) option" where
  "strptime_internal rp [] ts = Some (rp, ts)"
| "strptime_internal rp [f] ts =
     (if isspace f then Some (dropWhile isspace rp, ts)
      else if f \<noteq> CHR ''%'' then
        (case match_char f rp of None \<Rightarrow> None | Some rp' \<Rightarrow> Some (rp', ts))
      else None)"
| "strptime_internal rp (f # c # fmt) ts =
     (if isspace f then strptime_internal (dropWhile isspace rp) (c # fmt) ts
      else if f \<noteq> CHR ''%'' then
        (case match_char f rp of None \<Rightarrow> None
         | Some rp' \<Rightarrow> strptime_internal rp' (c # fmt) ts)
      else
        (case strptime_conv c rp ts of None \<Rightarrow> None
         | Some (rp', ts') \<Rightarrow> strptime_internal rp' fmt ts'))"

text \<open>
  \<^verbatim>\<open>strptime\<close>: the loop, then the century is applied to the year. The result is the
  unread rest of the input and the broken-down time.
\<close>

definition strptime :: "string \<Rightarrow> string \<Rightarrow> tm \<Rightarrow> (string \<times> tm) option" where
  "strptime buf fmt tm =
     (case strptime_internal buf fmt (tm, \<lparr>century = -1, want_century = False\<rparr>) of
        None \<Rightarrow> None
      | Some (rp, tm', s) \<Rightarrow>
          Some (rp,
            if century s \<noteq> -1 then
              (if want_century s
               then tm'\<lparr>tm_year := tm_year tm' mod 100 + (century s - 19) * 100\<rparr>
               else tm'\<lparr>tm_year := (century s - 19) * 100\<rparr>)
            else tm'))"

subsection \<open>binary64 arithmetic and \<^verbatim>\<open>strtod\<close>\<close>

text \<open>
  A finite, nonnegative \<^verbatim>\<open>double\<close> is the pair \<open>(m, e)\<close> of a significand
  \<open>m \<ge> 0\<close> and an exponent, with value \<open>m * 2 ^ e\<close>. Results are rounded to 53 significant bits, to
  nearest, ties to even (IEEE 754 binary64 in its normal range, which the values of this
  program never leave: they lie between \<open>10 ^ - 18\<close> and \<open>10 ^ 9\<close>, or are zero).
\<close>

type_synonym binary64 = "int \<times> int"

text \<open>The number of binary digits of a positive number.\<close>

function bitlen :: "int \<Rightarrow> nat" where
  "bitlen n = (if n \<le> 0 then 0 else Suc (bitlen (n div 2)))"
  by pat_completeness auto
termination
  by (relation "measure nat") auto

declare bitlen.simps [simp del]

text \<open>\<open>n / d\<close> rounded to the nearest integer, ties to even (for \<open>n \<ge> 0\<close> and \<open>d > 0\<close>).\<close>

definition rne_div :: "int \<Rightarrow> int \<Rightarrow> int" where
  "rne_div n d =
     (let q = n div d; r = n mod d in
      if 2 * r < d then q
      else if 2 * r > d then q + 1
      else if even q then q else q + 1)"

text \<open>The \<^verbatim>\<open>double\<close> nearest to the fraction \<open>n / d\<close>, for \<open>n \<ge> 0\<close> and \<open>d > 0\<close>.\<close>

definition round_binary64 :: "int \<Rightarrow> int \<Rightarrow> binary64" where
  "round_binary64 n d =
     (if n \<le> 0 then (0, 0)
      else
        (let k = int (bitlen n) - int (bitlen d);
             e = (if (if k \<ge> 0 then 2 ^ nat k * d \<le> n else d \<le> n * 2 ^ nat (- k))
                  then k else k - 1);
             sh = 52 - e;
             m = (if sh \<ge> 0 then rne_div (n * 2 ^ nat sh) d
                  else rne_div n (d * 2 ^ nat (- sh)))
         in (m, - sh)))"

definition binary64_mul :: "binary64 \<Rightarrow> binary64 \<Rightarrow> binary64" where
  "binary64_mul x y =
     (let m = fst x * fst y; e = snd x + snd y in
      if e \<ge> 0 then round_binary64 (m * 2 ^ nat e) 1 else round_binary64 m (2 ^ nat (- e)))"

text \<open>The conversions \<^verbatim>\<open>long\<close> to \<^verbatim>\<open>double\<close> and back; the cast back truncates.\<close>

definition binary64_of_long :: "int \<Rightarrow> binary64" where
  "binary64_of_long n = round_binary64 n 1"

definition long_of_binary64 :: "binary64 \<Rightarrow> int" where
  "long_of_binary64 x =
     (if snd x \<ge> 0 then fst x * 2 ^ nat (snd x) else fst x div 2 ^ nat (- snd x))"

definition decimal_value :: "string \<Rightarrow> int" where
  "decimal_value ds = foldl (\<lambda>a c. 10 * a + digit_val c) 0 ds"

text \<open>
  \<^verbatim>\<open>strtod\<close> on a decimal string without sign or exponent (the program passes a
  \<^verbatim>\<open>.\<close> followed by digits only): the longest prefix of digits with at most one
  \<^verbatim>\<open>.\<close>, holding at least one digit, is converted and correctly rounded. Where there
  is no digit, no conversion is performed: the value is zero and the end pointer is the
  start of the string. The result is \<^verbatim>\<open>errno\<close> after the call, the value, and the
  distance of the end pointer from the start.
\<close>

definition strtod :: "platform \<Rightarrow> string \<Rightarrow> int \<times> binary64 \<times> nat" where
  "strtod p nptr =
     (let ip = takeWhile isdigit nptr;
          r = dropWhile isdigit nptr;
          point = (r \<noteq> [] \<and> hd r = CHR ''.'');
          fp = (if point then takeWhile isdigit (tl r) else [])
      in if ip = [] \<and> fp = [] then (strtod_errno p nptr, (0, 0), 0)
         else (strtod_errno p nptr,
               round_binary64 (decimal_value (ip @ fp)) (10 ^ length fp),
               length ip + (if point then 1 + length fp else 0)))"

subsection \<open>\<^verbatim>\<open>touch_parse_frac\<close>\<close>

text \<open>
  The copy loop \<^verbatim>\<open>for(i = 1; isdigit((*time_parse)[i - 1]) && i < MAX_FRAC_CHAR_LEN; i++)\<close>.
  \<open>tp\<close> is the position \<^verbatim>\<open>*time_parse\<close> in the string \<open>str\<close>; \<open>frac_str\<close> holds the
  \<open>i\<close> characters written so far, so that \<^verbatim>\<open>frac_str[i] = c\<close> appends \<open>c\<close>.
\<close>

function frac_copy :: "string \<Rightarrow> nat \<Rightarrow> nat \<Rightarrow> nat \<Rightarrow> string \<Rightarrow> string" where
  "frac_copy str tp mx i frac_str =
     (if isdigit (c_at str (tp + (i - 1))) \<and> i < mx
      then frac_copy str tp mx (i + 1) (frac_str @ [c_at str (tp + (i - 1))])
      else frac_str)"
  by pat_completeness auto
termination
  by (relation "measure (\<lambda>(str, tp, mx, i, frac_str). mx - i)") auto

declare frac_copy.simps [simp del]

definition set_tv_nsec :: "touch \<Rightarrow> int \<Rightarrow> touch" where
  "set_tv_nsec t v =
     t\<lparr>time_am := ((fst (time_am t))\<lparr>tv_nsec := v\<rparr>, (snd (time_am t))\<lparr>tv_nsec := v\<rparr>)\<rparr>"

definition set_tv_sec :: "touch \<Rightarrow> int \<Rightarrow> touch" where
  "set_tv_sec t v =
     t\<lparr>time_am := ((fst (time_am t))\<lparr>tv_sec := v\<rparr>, (snd (time_am t))\<lparr>tv_sec := v\<rparr>)\<rparr>"

text \<open>
  The cursor \<^verbatim>\<open>const char **time_parse\<close> is a position in the string being parsed;
  the function returns the new position with the new state.
\<close>

definition touch_parse_frac ::
  "platform \<Rightarrow> touch \<times> world \<Rightarrow> string \<Rightarrow> nat \<Rightarrow> (touch \<times> world) \<times> nat" where
  "touch_parse_frac p tw str time_parse =
     (let CONV_FRAC_NSEC = 1000000000 in
      if c_at str time_parse = CHR ''.'' \<or> c_at str time_parse = CHR '','' then
        if \<not> malloc_ok p then (touch_warn tw True ''malloc: frac_str'', time_parse)
        else
          (let time_parse1 = time_parse + 1;
               frac_str = frac_copy str time_parse1 (MAX_FRAC_CHAR_LEN (snd tw)) 1 ''.''
           in case strtod p frac_str of (errno, frac, ep) \<Rightarrow>
                if errno \<noteq> 0 then (touch_warn tw True ''failed to parse frac'', time_parse1)
                else
                  (let time_parse2 = nat (int time_parse1 + (int ep - 1));
                       tv_nsec = long_of_binary64
                                   (binary64_mul frac (binary64_of_long CONV_FRAC_NSEC))
                   in ((set_tv_nsec (fst tw) tv_nsec, snd tw), time_parse2)))
      else (tw, time_parse))"

subsection \<open>\<^verbatim>\<open>touch_parse_date_time\<close>\<close>

text \<open>
  \<^verbatim>\<open>(size_t)(log10(LONG_MAX) + 1)\<close>: the number of decimal digits of \<^verbatim>\<open>LONG_MAX\<close>
  (19 for a 64-bit \<^verbatim>\<open>long\<close>, 10 for a 32-bit one).
\<close>

function decimal_digits :: "int \<Rightarrow> nat" where
  "decimal_digits n = (if n < 10 then 1 else Suc (decimal_digits (n div 10)))"
  by pat_completeness auto
termination
  by (relation "measure nat") auto

declare decimal_digits.simps [simp del]

definition tm_zero :: tm where
  "tm_zero = \<lparr>tm_sec = 0, tm_min = 0, tm_hour = 0, tm_mday = 0, tm_mon = 0, tm_year = 0,
              tm_isdst = 0\<rparr>"

definition touch_parse_date_time :: "platform \<Rightarrow> touch \<times> world \<Rightarrow> string \<Rightarrow> touch \<times> world" where
  "touch_parse_date_time p tw0 date_time_str =
     (let MIN_DATE_TIME = 19;
          DATE_TIME_T_POS = 10;
          tm = tm_zero;
          tw = (fst tw0, (snd tw0)\<lparr>MAX_FRAC_CHAR_LEN := decimal_digits (LONG_MAX p)\<rparr>);
          MAX_DATE_TIME = 20 + MAX_FRAC_CHAR_LEN (snd tw) + 1;
          slen = length date_time_str
      in if slen < MIN_DATE_TIME \<or> slen \<ge> MAX_DATE_TIME \<or>
            (date_time_str ! DATE_TIME_T_POS \<noteq> CHR ''T'' \<and>
             date_time_str ! DATE_TIME_T_POS \<noteq> CHR '' '')
         then touch_warn tw False ''invalid date_time''
         else
           (let fmt = (''%Y-%m-%d %T'')[8 := date_time_str ! DATE_TIME_T_POS];
                tm = tm\<lparr>tm_isdst := - 1\<rparr>
            in case strptime date_time_str fmt tm of
                 None \<Rightarrow> touch_warn tw True ''failed to parse date_time''
               | Some (rest, tm') \<Rightarrow>
                   (case touch_parse_frac p tw date_time_str (slen - length rest) of
                      (tw1, time_parse1) \<Rightarrow>
                   (case (if c_at date_time_str time_parse1 = CHR ''Z''
                          then ((if \<not> setenv_ok p
                                 then touch_warn tw1 True ''failed to set TZ''
                                 else (fst tw1, (snd tw1)\<lparr>env_TZ := Some ''UTC''\<rparr>)),
                                time_parse1 + 1)
                          else (tw1, time_parse1)) of
                      (tw2, time_parse2) \<Rightarrow>
                        if status_code (fst tw2) \<noteq> 0 \<or> c_at date_time_str time_parse2 \<noteq> CHR 0x00
                        then touch_warn tw2 False ''failed to parse date_time''
                        else
                          (let tv_sec = mktime p (env_TZ (snd tw2)) tm';
                               tw3 = (if tv_sec = - 1 then touch_warn tw2 True ''mktime'' else tw2)
                           in (set_tv_sec (fst tw3) tv_sec, snd tw3))))))"

subsection \<open>\<^verbatim>\<open>touch_parse_time\<close>\<close>

text \<open>The format string that \<^verbatim>\<open>touch_parse_time\<close> builds with \<^verbatim>\<open>stpcpy\<close>.\<close>

definition touch_parse_time_fmt :: "nat \<Rightarrow> bool \<Rightarrow> string" where
  "touch_parse_time_fmt slen_minus_sec has_dot =
     (if slen_minus_sec = 12 then ''%C'' else []) @
     (if slen_minus_sec \<ge> 10 then ''%y'' else []) @
     ''%m%d%H%M'' @
     (if has_dot then ''.%S'' else [])"

definition touch_parse_time :: "platform \<Rightarrow> touch \<times> world \<Rightarrow> string \<Rightarrow> touch \<times> world" where
  "touch_parse_time p tw time_str =
     (let MIN_TIME_LEN = 8;
          MAX_TIME_LEN = 15;
          tm = tm_zero;
          slen = length time_str
      in if slen < MIN_TIME_LEN \<or> slen > MAX_TIME_LEN
         then touch_warn tw False ''invalid time string''
         else
           (let has_dot = (CHR ''.'' \<in> set time_str);
                slen_minus_sec = (if has_dot then slen - 3 else slen);
                fmt = touch_parse_time_fmt slen_minus_sec has_dot
            in case strptime time_str fmt tm of
                 None \<Rightarrow> touch_warn tw True ''invalid time string''
               | Some (rest, tm') \<Rightarrow>
                   if rest \<noteq> [] then touch_warn tw True ''invalid time string''
                   else
                     (let tv_sec = mktime p (env_TZ (snd tw)) tm';
                          tw1 = (if tv_sec = - 1 then touch_warn tw True ''mktime'' else tw)
                      in (set_tv_sec (fst tw1) tv_sec, snd tw1))))"

subsection \<open>\<^verbatim>\<open>touch_get_time_ref_file\<close> and \<^verbatim>\<open>touch_path\<close>\<close>

definition touch_get_time_ref_file :: "platform \<Rightarrow> touch \<times> world \<Rightarrow> string \<Rightarrow> touch \<times> world" where
  "touch_get_time_ref_file p tw path =
     (case sys_stat p path of
        None \<Rightarrow> touch_warn tw True ''stat reference file: %s''
      | Some (st_atim, st_mtim) \<Rightarrow> ((fst tw)\<lparr>time_am := (st_atim, st_mtim)\<rparr>, snd tw))"

definition issue :: "touch \<times> world \<Rightarrow> syscall \<Rightarrow> touch \<times> world" where
  "issue tw c = (fst tw, (snd tw)\<lparr>syscalls := syscalls (snd tw) @ [c]\<rparr>)"

definition touch_path :: "platform \<Rightarrow> touch \<times> world \<Rightarrow> string \<Rightarrow> touch \<times> world" where
  "touch_path p tw path =
     (case sys_open p path of
        Open_failed \<Rightarrow> touch_warn tw True ''open: %s''
      | Open_ENOENT \<Rightarrow>
          if flags (fst tw) AND TOUCH_FLAG_NO_CREATE = 0 then
            (if \<not> creat_ok p path then touch_warn (issue tw (Creat path)) True ''creat: %s''
             else
               (let tw1 = issue (issue tw (Creat path)) (Futimens path (time_am (fst tw)))
                in if \<not> futimens_ok p path (time_am (fst tw))
                   then touch_warn tw1 True ''futimens: %s'' else tw1))
          else tw
      | Opened \<Rightarrow>
          (let tw1 = issue tw (Utimensat path (time_am (fst tw)))
           in if \<not> utimensat_ok p path (time_am (fst tw))
              then touch_warn tw1 True ''utimensat on: %s'' else tw1))"

subsection \<open>\<^verbatim>\<open>touch_ensure_args_mutually_exclusive\<close>\<close>

definition touch_ensure_args_mutually_exclusive :: "touch \<Rightarrow> bool" where
  "touch_ensure_args_mutually_exclusive t =
     (let flags_exclusive =
            flags t AND (TOUCH_FLAG_REF_FILE OR TOUCH_FLAG_TIME OR TOUCH_FLAG_DATE_TIME)
      in if flags_exclusive \<noteq> 0 \<and>
            flags_exclusive \<noteq> TOUCH_FLAG_REF_FILE \<and>
            flags_exclusive \<noteq> TOUCH_FLAG_TIME \<and>
            flags_exclusive \<noteq> TOUCH_FLAG_DATE_TIME
         then False else True)"

subsection \<open>\<^verbatim>\<open>touch_main\<close>\<close>

text \<open>
  \<^verbatim>\<open>getopt\<close> is the C library's: the model takes what its calls return, in order, each
  as the option character with \<^verbatim>\<open>optarg\<close>, and the operands left after the options.
  One round of the \<^verbatim>\<open>switch\<close>:
\<close>

definition touch_main_option ::
  "platform \<Rightarrow> touch \<times> world \<Rightarrow> char \<times> string \<Rightarrow> touch \<times> world" where
  "touch_main_option p tw co =
     (case co of (c, optarg) \<Rightarrow>
      if c = CHR ''a'' then ((fst tw)\<lparr>flags := flags (fst tw) OR TOUCH_FLAG_ACCESS_TIME\<rparr>, snd tw)
      else if c = CHR ''c'' then ((fst tw)\<lparr>flags := flags (fst tw) OR TOUCH_FLAG_NO_CREATE\<rparr>, snd tw)
      else if c = CHR ''d'' then
        (let tw1 = touch_parse_date_time p tw optarg
         in ((fst tw1)\<lparr>flags := flags (fst tw1) OR TOUCH_FLAG_DATE_TIME\<rparr>, snd tw1))
      else if c = CHR ''m'' then ((fst tw)\<lparr>flags := flags (fst tw) OR TOUCH_FLAG_MOD_TIME\<rparr>, snd tw)
      else if c = CHR ''r'' then
        (let tw1 = touch_get_time_ref_file p tw optarg
         in ((fst tw1)\<lparr>flags := flags (fst tw1) OR TOUCH_FLAG_REF_FILE\<rparr>, snd tw1))
      else if c = CHR ''t'' then
        (let tw1 = touch_parse_time p tw optarg
         in ((fst tw1)\<lparr>flags := flags (fst tw1) OR TOUCH_FLAG_TIME\<rparr>, snd tw1))
      else ((fst tw)\<lparr>status_code := EXIT_FAILURE\<rparr>, snd tw))"

text \<open>The \<^verbatim>\<open>while\<close> loop over the options.\<close>

fun touch_main_options ::
  "platform \<Rightarrow> touch \<times> world \<Rightarrow> (char \<times> string) list \<Rightarrow> touch \<times> world" where
  "touch_main_options p tw [] = tw"
| "touch_main_options p tw (co # opts) = touch_main_options p (touch_main_option p tw co) opts"

text \<open>``Use current time if the user did not specify a time.''\<close>

definition touch_main_current_time :: "touch \<Rightarrow> touch" where
  "touch_main_current_time t =
     (if tv_sec (fst (time_am t)) = 0 then set_tv_nsec t UTIME_NOW else t)"

text \<open>The choice between access and modification time.\<close>

definition touch_main_select :: "touch \<Rightarrow> touch" where
  "touch_main_select t =
     (if flags t AND TOUCH_FLAG_ACCESS_TIME = 0 \<and> flags t AND TOUCH_FLAG_MOD_TIME = 0 then t
      else if flags t AND TOUCH_FLAG_ACCESS_TIME = 0
        then t\<lparr>time_am := ((fst (time_am t))\<lparr>tv_nsec := UTIME_OMIT\<rparr>, snd (time_am t))\<rparr>
      else if flags t AND TOUCH_FLAG_MOD_TIME = 0
        then t\<lparr>time_am := (fst (time_am t), (snd (time_am t))\<lparr>tv_nsec := UTIME_OMIT\<rparr>)\<rparr>
      else t)"

text \<open>The \<^verbatim>\<open>for\<close> loop over the operands.\<close>

fun touch_main_paths :: "platform \<Rightarrow> touch \<times> world \<Rightarrow> string list \<Rightarrow> touch \<times> world" where
  "touch_main_paths p tw [] = tw"
| "touch_main_paths p tw (path # argv) = touch_main_paths p (touch_path p tw path) argv"

definition touch_init :: touch where
  "touch_init = \<lparr>flags = 0, status_code = 0,
                 time_am = (\<lparr>tv_sec = 0, tv_nsec = 0\<rparr>, \<lparr>tv_sec = 0, tv_nsec = 0\<rparr>)\<rparr>"

text \<open>
  \<^verbatim>\<open>touch_main\<close> returns \<^verbatim>\<open>touch.status_code\<close>; the model returns the whole
  \<^verbatim>\<open>struct touch\<close> as it is at the \<^verbatim>\<open>return\<close>, with the process state.
\<close>

definition touch_main ::
  "platform \<Rightarrow> world \<Rightarrow> (char \<times> string) list \<Rightarrow> string list \<Rightarrow> touch \<times> world" where
  "touch_main p w opts argv =
     (let tw = touch_main_options p (touch_init, w) opts
      in if length argv < 1 then touch_warn tw False ''file... argument required''
         else if touch_ensure_args_mutually_exclusive (fst tw) = False
           then touch_warn tw False ''-r, -t, and -d mutually exclusive''
         else if status_code (fst tw) = 0
           then touch_main_paths p
                  (touch_main_select (touch_main_current_time (fst tw)), snd tw) argv
         else tw)"

subsection \<open>A concrete host\<close>

text \<open>
  The theorems below hold for every platform (under the hypotheses they state). To run
  the program on concrete command lines, \<open>host_utc\<close> is a 64-bit host on which every
  call succeeds, no file exists, and local time is UTC: its \<^verbatim>\<open>mktime\<close> is the
  proleptic Gregorian calendar, whatever \<^verbatim>\<open>TZ\<close> holds.
\<close>

definition days_from_civil :: "int \<Rightarrow> int \<Rightarrow> int \<Rightarrow> int" where
  "days_from_civil y m d =
     (let y' = (if m \<le> 2 then y - 1 else y);
          era = y' div 400;
          yoe = y' - era * 400;
          doy = (153 * (if m > 2 then m - 3 else m + 9) + 2) div 5 + d - 1;
          doe = yoe * 365 + yoe div 4 - yoe div 100 + doy
      in era * 146097 + doe - 719468)"

definition mktime_utc :: "tm \<Rightarrow> int" where
  "mktime_utc tm =
     (let y = 1900 + tm_year tm + tm_mon tm div 12;
          m = tm_mon tm mod 12 + 1;
          days = days_from_civil y m 1 + (tm_mday tm - 1)
      in ((days * 24 + tm_hour tm) * 60 + tm_min tm) * 60 + tm_sec tm)"

definition host_utc :: platform where
  "host_utc =
     \<lparr>LONG_MAX = 2 ^ 63 - 1, malloc_ok = True, setenv_ok = True,
      strtod_errno = (\<lambda>nptr. 0), mktime = (\<lambda>tz tm. mktime_utc tm),
      sys_stat = (\<lambda>path. None), sys_open = (\<lambda>path. Open_ENOENT),
      creat_ok = (\<lambda>path. True), futimens_ok = (\<lambda>path times. True),
      utimensat_ok = (\<lambda>path times. True)\<rparr>"

text \<open>
  The same host with one file, \<^verbatim>\<open>ref\<close>, last read at the epoch (second 0, 5 ns) and
  last written 100 s and 7 ns after it.
\<close>

definition host_ref :: platform where
  "host_ref =
     host_utc\<lparr>sys_stat :=
       (\<lambda>path. if path = ''ref''
               then Some (\<lparr>tv_sec = 0, tv_nsec = 5\<rparr>, \<lparr>tv_sec = 100, tv_nsec = 7\<rparr>)
               else None)\<rparr>"

text \<open>The same host when \<^verbatim>\<open>mktime\<close> fails, as the test suite makes it fail.\<close>

definition host_mktime_fails :: platform where
  "host_mktime_fails = host_utc\<lparr>mktime := (\<lambda>tz tm. - 1)\<rparr>"

text \<open>The same host when \<^verbatim>\<open>strtod\<close> reports \<^verbatim>\<open>ERANGE\<close>, as the test suite makes it.\<close>

definition host_strtod_fails :: platform where
  "host_strtod_fails = host_utc\<lparr>strtod_errno := (\<lambda>nptr. 34)\<rparr>"

definition world0 :: world where
  "world0 = \<lparr>env_TZ = None, stderr = [], MAX_FRAC_CHAR_LEN = 0, syscalls = []\<rparr>"

text \<open>A number below 100 written with two decimal digits, as the fields of a time are.\<close>

definition dd :: "nat \<Rightarrow> string" where
  "dd v = [char_of (48 + v div 10), char_of (48 + v mod 10)]"

subsection \<open>The claimed formula for the nanoseconds\<close>

text \<open>
  This definition follows the words of the specification, not the program:
  ``nanoseconds = round-toward-zero(value \<times> 1_000_000_000)'', for the \<^verbatim>\<open>double\<close>
  \<open>value\<close>, with the product taken exactly. The program's own computation is in
  \<^verbatim>\<open>touch_parse_frac\<close>; the two are compared below.
\<close>

definition spec_round_toward_zero_nsec :: "binary64 \<Rightarrow> int" where
  "spec_round_toward_zero_nsec x =
     (if snd x \<ge> 0 then fst x * 2 ^ nat (snd x) * 1000000000
      else (fst x * 1000000000) div 2 ^ nat (- snd x))"

section \<open>Properties\<close>

subsection \<open>Basic facts\<close>

lemma fst_touch_warn [simp]:
  "fst (touch_warn tw e m) = (fst tw)\<lparr>status_code := EXIT_FAILURE\<rparr>"
  by (simp add: touch_warn_def)

lemma snd_touch_warn [simp]:
  "snd (touch_warn tw e m) = (snd tw)\<lparr>stderr := stderr (snd tw) @ [(e, m)]\<rparr>"
  by (simp add: touch_warn_def)

subsection \<open>The choice between access and modification time\<close>

text \<open>
  C5. With neither \<^verbatim>\<open>-a\<close> nor \<^verbatim>\<open>-m\<close> the pair of times is returned unchanged; with
  only access requested the nanoseconds of the modification entry become
  \<^verbatim>\<open>UTIME_OMIT\<close> and the access entry stays as resolved; with only modification
  requested the nanoseconds of the access entry become \<^verbatim>\<open>UTIME_OMIT\<close>; with both
  requested the pair is returned unchanged.
\<close>

theorem touch_main_select_policy:
  "(flags t AND TOUCH_FLAG_ACCESS_TIME = 0 \<and> flags t AND TOUCH_FLAG_MOD_TIME = 0 \<longrightarrow>
      touch_main_select t = t) \<and>
   (flags t AND TOUCH_FLAG_ACCESS_TIME \<noteq> 0 \<and> flags t AND TOUCH_FLAG_MOD_TIME = 0 \<longrightarrow>
      touch_main_select t =
        t\<lparr>time_am := (fst (time_am t), (snd (time_am t))\<lparr>tv_nsec := UTIME_OMIT\<rparr>)\<rparr>) \<and>
   (flags t AND TOUCH_FLAG_ACCESS_TIME = 0 \<and> flags t AND TOUCH_FLAG_MOD_TIME \<noteq> 0 \<longrightarrow>
      touch_main_select t =
        t\<lparr>time_am := ((fst (time_am t))\<lparr>tv_nsec := UTIME_OMIT\<rparr>, snd (time_am t))\<rparr>) \<and>
   (flags t AND TOUCH_FLAG_ACCESS_TIME \<noteq> 0 \<and> flags t AND TOUCH_FLAG_MOD_TIME \<noteq> 0 \<longrightarrow>
      touch_main_select t = t)"
  by (simp add: touch_main_select_def)

theorem touch_main_select_policy_witness:
  "touch_main_select
     \<lparr>flags = 0, status_code = 0,
      time_am = (\<lparr>tv_sec = 10, tv_nsec = 1\<rparr>, \<lparr>tv_sec = 20, tv_nsec = 2\<rparr>)\<rparr> =
     \<lparr>flags = 0, status_code = 0,
      time_am = (\<lparr>tv_sec = 10, tv_nsec = 1\<rparr>, \<lparr>tv_sec = 20, tv_nsec = 2\<rparr>)\<rparr> \<and>
   touch_main_select
     \<lparr>flags = TOUCH_FLAG_ACCESS_TIME, status_code = 0,
      time_am = (\<lparr>tv_sec = 10, tv_nsec = 1\<rparr>, \<lparr>tv_sec = 20, tv_nsec = 2\<rparr>)\<rparr> =
     \<lparr>flags = TOUCH_FLAG_ACCESS_TIME, status_code = 0,
      time_am = (\<lparr>tv_sec = 10, tv_nsec = 1\<rparr>, \<lparr>tv_sec = 20, tv_nsec = UTIME_OMIT\<rparr>)\<rparr> \<and>
   touch_main_select
     \<lparr>flags = TOUCH_FLAG_MOD_TIME, status_code = 0,
      time_am = (\<lparr>tv_sec = 10, tv_nsec = 1\<rparr>, \<lparr>tv_sec = 20, tv_nsec = 2\<rparr>)\<rparr> =
     \<lparr>flags = TOUCH_FLAG_MOD_TIME, status_code = 0,
      time_am = (\<lparr>tv_sec = 10, tv_nsec = UTIME_OMIT\<rparr>, \<lparr>tv_sec = 20, tv_nsec = 2\<rparr>)\<rparr> \<and>
   touch_main_select
     \<lparr>flags = TOUCH_FLAG_ACCESS_TIME OR TOUCH_FLAG_MOD_TIME, status_code = 0,
      time_am = (\<lparr>tv_sec = 10, tv_nsec = 1\<rparr>, \<lparr>tv_sec = 20, tv_nsec = 2\<rparr>)\<rparr> =
     \<lparr>flags = TOUCH_FLAG_ACCESS_TIME OR TOUCH_FLAG_MOD_TIME, status_code = 0,
      time_am = (\<lparr>tv_sec = 10, tv_nsec = 1\<rparr>, \<lparr>tv_sec = 20, tv_nsec = 2\<rparr>)\<rparr>"
  using
    touch_main_select_policy [of "\<lparr>flags = 0, status_code = 0,
      time_am = (\<lparr>tv_sec = 10, tv_nsec = 1\<rparr>, \<lparr>tv_sec = 20, tv_nsec = 2\<rparr>)\<rparr>"]
    touch_main_select_policy [of "\<lparr>flags = TOUCH_FLAG_ACCESS_TIME, status_code = 0,
      time_am = (\<lparr>tv_sec = 10, tv_nsec = 1\<rparr>, \<lparr>tv_sec = 20, tv_nsec = 2\<rparr>)\<rparr>"]
    touch_main_select_policy [of "\<lparr>flags = TOUCH_FLAG_MOD_TIME, status_code = 0,
      time_am = (\<lparr>tv_sec = 10, tv_nsec = 1\<rparr>, \<lparr>tv_sec = 20, tv_nsec = 2\<rparr>)\<rparr>"]
    touch_main_select_policy [of "\<lparr>flags = TOUCH_FLAG_ACCESS_TIME OR TOUCH_FLAG_MOD_TIME, status_code = 0,
      time_am = (\<lparr>tv_sec = 10, tv_nsec = 1\<rparr>, \<lparr>tv_sec = 20, tv_nsec = 2\<rparr>)\<rparr>"]
  by (simp add: TOUCH_FLAG_ACCESS_TIME_def TOUCH_FLAG_MOD_TIME_def)

subsection \<open>The current-time sentinel\<close>

text \<open>
  C1. The claim is that a time resolved by a selected source is kept, also when its
  seconds are 0. The program decides by \<^verbatim>\<open>time_am[0].tv_sec == 0\<close> instead of by the
  source flags. Run on \<^verbatim>\<open>touch -d 1970-01-01T00:00:00,5Z f\<close>: option parsing resolves
  the date to second 0 and 500000000 ns, and \<^verbatim>\<open>touch_main\<close> hands \<^verbatim>\<open>UTIME_NOW\<close> to
  \<^verbatim>\<open>futimens\<close> for both times. Run on \<^verbatim>\<open>touch -r ref f\<close>, where \<^verbatim>\<open>ref\<close> was last
  read in second 0: both resolved nanosecond fields are replaced by \<^verbatim>\<open>UTIME_NOW\<close>.
\<close>

theorem touch_main_epoch_replaced_by_current_time:
  "touch_main host_utc world0 [(CHR ''d'', ''1970-01-01T00:00:00,5Z'')] [''f''] =
     (\<lparr>flags = TOUCH_FLAG_DATE_TIME, status_code = 0,
       time_am = (\<lparr>tv_sec = 0, tv_nsec = UTIME_NOW\<rparr>, \<lparr>tv_sec = 0, tv_nsec = UTIME_NOW\<rparr>)\<rparr>,
      \<lparr>env_TZ = Some ''UTC'', stderr = [], MAX_FRAC_CHAR_LEN = 19,
       syscalls =
         [Creat ''f'',
          Futimens ''f''
            (\<lparr>tv_sec = 0, tv_nsec = UTIME_NOW\<rparr>, \<lparr>tv_sec = 0, tv_nsec = UTIME_NOW\<rparr>)]\<rparr>) \<and>
   fst (touch_main_options host_utc (touch_init, world0)
          [(CHR ''d'', ''1970-01-01T00:00:00,5Z'')]) =
     \<lparr>flags = TOUCH_FLAG_DATE_TIME, status_code = 0,
      time_am = (\<lparr>tv_sec = 0, tv_nsec = 500000000\<rparr>, \<lparr>tv_sec = 0, tv_nsec = 500000000\<rparr>)\<rparr> \<and>
   fst (touch_main host_ref world0 [(CHR ''r'', ''ref'')] [''f'']) =
     \<lparr>flags = TOUCH_FLAG_REF_FILE, status_code = 0,
      time_am = (\<lparr>tv_sec = 0, tv_nsec = UTIME_NOW\<rparr>, \<lparr>tv_sec = 100, tv_nsec = UTIME_NOW\<rparr>)\<rparr>"
  by code_simp

subsection \<open>The fractional part\<close>

lemma isdigit_NUL [simp]: "\<not> isdigit (CHR 0x00)"
  by (simp add: isdigit_def)

lemma isdigit_point [simp]: "\<not> isdigit (CHR ''.'')"
  by (simp add: isdigit_def)

lemma frac_copy_eq:
  "1 \<le> i \<Longrightarrow>
   frac_copy str tp mx i acc =
     acc @ take (mx - i) (takeWhile isdigit (drop (tp + (i - 1)) str))"
proof (induction str tp mx i acc rule: frac_copy.induct)
  case (1 str tp mx i frac_str)
  define j where "j = tp + (i - 1)"
  have unf: "frac_copy str tp mx i frac_str =
               (if isdigit (c_at str j) \<and> i < mx
                then frac_copy str tp mx (i + 1) (frac_str @ [c_at str j])
                else frac_str)"
    unfolding j_def by (subst frac_copy.simps) (rule refl)
  have j': "tp + (i + 1 - 1) = Suc j"
    using "1.prems" by (simp add: j_def)
  show ?case
  proof (cases "isdigit (c_at str j) \<and> i < mx")
    case True
    then have j: "j < length str" and d: "isdigit (str ! j)" and c: "c_at str j = str ! j"
      by (auto simp: c_at_def split: if_splits)
    have dr: "drop j str = str ! j # drop (Suc j) str"
      using j by (simp add: Cons_nth_drop_Suc)
    have "mx - i = Suc (mx - (i + 1))"
      using True by arith
    then have tk: "take (mx - i) (str ! j # xs) = str ! j # take (mx - (i + 1)) xs" for xs
      by simp
    have ih: "frac_copy str tp mx (i + 1) (frac_str @ [c_at str j]) =
                (frac_str @ [c_at str j]) @
                  take (mx - (i + 1)) (takeWhile isdigit (drop (Suc j) str))"
      using "1.IH" [unfolded j_def [symmetric] j'] True by simp
    have "take (mx - i) (takeWhile isdigit (drop j str)) =
            str ! j # take (mx - (i + 1)) (takeWhile isdigit (drop (Suc j) str))"
      by (simp only: dr takeWhile.simps d if_True tk)
    then show ?thesis
      unfolding j_def [symmetric] unf using True ih c by simp
  next
    case False
    have "take (mx - i) (takeWhile isdigit (drop j str)) = []"
    proof (cases "i < mx")
      case True
      with False have nd: "\<not> isdigit (c_at str j)" by simp
      show ?thesis
      proof (cases "j < length str")
        case True
        then have "drop j str = str ! j # drop (Suc j) str"
          by (simp add: Cons_nth_drop_Suc)
        with nd True show ?thesis by (simp add: c_at_def)
      next
        case False
        then show ?thesis by simp
      qed
    next
      case False
      then show ?thesis by simp
    qed
    then show ?thesis
      unfolding j_def [symmetric] unf using False by auto
  qed
qed

lemma strtod_point_digits:
  assumes "\<forall>c \<in> set ds. isdigit c"
  shows "strtod p (CHR ''.'' # ds) =
           (strtod_errno p (CHR ''.'' # ds),
            (if ds = [] then (0, 0) else round_binary64 (decimal_value ds) (10 ^ length ds)),
            (if ds = [] then 0 else 1 + length ds))"
proof -
  have tw: "takeWhile isdigit ds = ds"
    using assms by simp
  show ?thesis
    unfolding strtod_def Let_def
    by (simp add: tw del: takeWhile_eq_all_conv)
qed

lemma digits_take_takeWhile:
  "\<forall>c \<in> set (take n (takeWhile isdigit xs)). isdigit c"
  by (meson in_set_takeD set_takeWhileD)

lemma binary64_mul_zero: "long_of_binary64 (binary64_mul (0, 0) y) = 0"
  by (simp add: binary64_mul_def round_binary64_def long_of_binary64_def Let_def)

lemma touch_parse_frac_none:
  "c_at str tp \<noteq> CHR ''.'' \<Longrightarrow> c_at str tp \<noteq> CHR '','' \<Longrightarrow>
   touch_parse_frac p tw str tp = (tw, tp)"
  by (simp add: touch_parse_frac_def)

lemma touch_parse_frac_malloc:
  "c_at str tp = CHR ''.'' \<or> c_at str tp = CHR '','' \<Longrightarrow> \<not> malloc_ok p \<Longrightarrow>
   touch_parse_frac p tw str tp = (touch_warn tw True ''malloc: frac_str'', tp)"
  by (auto simp add: touch_parse_frac_def)

lemma touch_parse_frac_sep:
  assumes sep: "c_at str tp = CHR ''.'' \<or> c_at str tp = CHR '',''"
      and m: "malloc_ok p"
      and ds: "ds = take (MAX_FRAC_CHAR_LEN (snd tw) - 1) (takeWhile isdigit (drop (tp + 1) str))"
  shows "touch_parse_frac p tw str tp =
           (if strtod_errno p (CHR ''.'' # ds) \<noteq> 0
            then (touch_warn tw True ''failed to parse frac'', tp + 1)
            else if ds = [] then ((set_tv_nsec (fst tw) 0, snd tw), tp)
            else ((set_tv_nsec (fst tw)
                     (long_of_binary64
                        (binary64_mul (round_binary64 (decimal_value ds) (10 ^ length ds))
                           (binary64_of_long 1000000000))), snd tw),
                  tp + 1 + length ds))"
proof -
  have fc: "frac_copy str (tp + 1) (MAX_FRAC_CHAR_LEN (snd tw)) 1 ''.'' = CHR ''.'' # ds"
    by (simp add: frac_copy_eq ds)
  have dig: "\<forall>c \<in> set ds. isdigit c"
    unfolding ds by (rule digits_take_takeWhile)
  show ?thesis
    unfolding touch_parse_frac_def Let_def fc strtod_point_digits [OF dig]
    using sep m by (auto simp add: binary64_mul_zero)
qed

lemma touch_parse_frac_cases:
  "(\<exists>k. touch_parse_frac p tw str tp = (tw, k)) \<or>
   (\<exists>k. touch_parse_frac p tw str tp = (touch_warn tw True ''malloc: frac_str'', k)) \<or>
   (\<exists>k. touch_parse_frac p tw str tp = (touch_warn tw True ''failed to parse frac'', k)) \<or>
   (\<exists>k v. touch_parse_frac p tw str tp = ((set_tv_nsec (fst tw) v, snd tw), k))"
proof (cases "c_at str tp = CHR ''.'' \<or> c_at str tp = CHR '',''")
  case sep: True
  show ?thesis
  proof (cases "malloc_ok p")
    case True
    show ?thesis
      by (subst (4) touch_parse_frac_sep [OF sep True refl],
          subst (3) touch_parse_frac_sep [OF sep True refl]) auto
  next
    case False
    then show ?thesis
      using touch_parse_frac_malloc [OF sep] by simp
  qed
next
  case False
  then show ?thesis
    by (simp add: touch_parse_frac_none)
qed

lemma set_tv_nsec_simps [simp]:
  "status_code (set_tv_nsec t v) = status_code t"
  "flags (set_tv_nsec t v) = flags t"
  "tv_sec (fst (time_am (set_tv_nsec t v))) = tv_sec (fst (time_am t))"
  "tv_sec (snd (time_am (set_tv_nsec t v))) = tv_sec (snd (time_am t))"
  "tv_nsec (fst (time_am (set_tv_nsec t v))) = v"
  "tv_nsec (snd (time_am (set_tv_nsec t v))) = v"
  by (simp_all add: set_tv_nsec_def)

lemma set_tv_sec_simps [simp]:
  "status_code (set_tv_sec t v) = status_code t"
  "flags (set_tv_sec t v) = flags t"
  "tv_sec (fst (time_am (set_tv_sec t v))) = v"
  "tv_sec (snd (time_am (set_tv_sec t v))) = v"
  "tv_nsec (fst (time_am (set_tv_sec t v))) = tv_nsec (fst (time_am t))"
  "tv_nsec (snd (time_am (set_tv_sec t v))) = tv_nsec (snd (time_am t))"
  by (simp_all add: set_tv_sec_def)

lemma EXIT_FAILURE_neq_0 [simp]: "EXIT_FAILURE \<noteq> 0"
  by (simp add: EXIT_FAILURE_def)

text \<open>What \<^verbatim>\<open>touch_parse_date_time\<close> does once length and separator are accepted.\<close>

lemma touch_parse_date_time_accepted:
  assumes "19 \<le> length s" and "length s < 20 + decimal_digits (LONG_MAX p) + 1"
      and "s ! 10 = CHR ''T'' \<or> s ! 10 = CHR '' ''"
      and "fmt = (''%Y-%m-%d %T'')[8 := s ! 10]"
      and "wm = w\<lparr>MAX_FRAC_CHAR_LEN := decimal_digits (LONG_MAX p)\<rparr>"
  shows "touch_parse_date_time p (t, w) s =
     (case strptime s fmt (tm_zero\<lparr>tm_isdst := - 1\<rparr>) of
        None \<Rightarrow> touch_warn (t, wm) True ''failed to parse date_time''
      | Some (rest, tm') \<Rightarrow>
          (case touch_parse_frac p (t, wm) s (length s - length rest) of
             (tw1, time_parse1) \<Rightarrow>
          (case (if c_at s time_parse1 = CHR ''Z''
                 then ((if \<not> setenv_ok p
                        then touch_warn tw1 True ''failed to set TZ''
                        else (fst tw1, (snd tw1)\<lparr>env_TZ := Some ''UTC''\<rparr>)),
                       time_parse1 + 1)
                 else (tw1, time_parse1)) of
             (tw2, time_parse2) \<Rightarrow>
               if status_code (fst tw2) \<noteq> 0 \<or> c_at s time_parse2 \<noteq> CHR 0x00
               then touch_warn tw2 False ''failed to parse date_time''
               else
                 (let tv_sec = mktime p (env_TZ (snd tw2)) tm';
                      tw3 = (if tv_sec = - 1 then touch_warn tw2 True ''mktime'' else tw2)
                  in (set_tv_sec (fst tw3) tv_sec, snd tw3)))))"
proof -
  have c: "\<not> (length s < 19 \<or>
              20 + MAX_FRAC_CHAR_LEN (w\<lparr>MAX_FRAC_CHAR_LEN := decimal_digits (LONG_MAX p)\<rparr>) + 1
                \<le> length s \<or>
              (s ! 10 \<noteq> CHR ''T'' \<and> s ! 10 \<noteq> CHR '' ''))"
    using assms(1-3) by auto
  show ?thesis
    unfolding touch_parse_date_time_def Let_def assms(4,5) fst_conv snd_conv
    by (simp only: c if_False)
qed

lemma touch_parse_date_time_rejected:
  assumes "length s < 19 \<or> 20 + decimal_digits (LONG_MAX p) + 1 \<le> length s \<or>
           (s ! 10 \<noteq> CHR ''T'' \<and> s ! 10 \<noteq> CHR '' '')"
  shows "touch_parse_date_time p (t, w) s =
           touch_warn (t, w\<lparr>MAX_FRAC_CHAR_LEN := decimal_digits (LONG_MAX p)\<rparr>) False
             ''invalid date_time''"
  using assms by (auto simp add: touch_parse_date_time_def Let_def)

lemma touch_parse_date_time_new_warnings:
  assumes "19 \<le> length s" and "length s < 20 + decimal_digits (LONG_MAX p) + 1"
      and "s ! 10 = CHR ''T'' \<or> s ! 10 = CHR '' ''"
  shows "\<exists>ws. stderr (snd (touch_parse_date_time p (t, w) s)) = stderr w @ ws \<and>
              (False, ''invalid date_time'') \<notin> set ws"
proof -
  define fmt where "fmt = (''%Y-%m-%d %T'')[8 := s ! 10]"
  define wm where "wm = w\<lparr>MAX_FRAC_CHAR_LEN := decimal_digits (LONG_MAX p)\<rparr>"
  note acc = touch_parse_date_time_accepted [OF assms fmt_def wm_def, of t]
  have wm: "stderr wm = stderr w" by (simp add: wm_def)
  show ?thesis
  proof (cases "strptime s fmt (tm_zero\<lparr>tm_isdst := - 1\<rparr>)")
    case None
    then show ?thesis
      by (simp add: acc wm)
  next
    case (Some a)
    obtain rest tm' where a: "a = (rest, tm')" by (cases a)
    show ?thesis
      using touch_parse_frac_cases [of p "(t, wm)" s "length s - length rest"]
      by (auto simp add: acc Some a Let_def wm)
  qed
qed

text \<open>\<open>decimal_digits\<close> counts decimal digits.\<close>

lemma decimal_digits_bounds:
  "0 < n \<Longrightarrow> 10 ^ (decimal_digits n - 1) \<le> n \<and> n < 10 ^ decimal_digits n"
proof (induction n rule: decimal_digits.induct)
  case (1 n)
  show ?case
  proof (cases "n < 10")
    case True
    with "1.prems" show ?thesis by (subst (1 2) decimal_digits.simps) simp
  next
    case False
    then have "0 < n div 10" by simp
    with "1.IH" False have ih: "10 ^ (decimal_digits (n div 10) - 1) \<le> n div 10"
      "n div 10 < 10 ^ decimal_digits (n div 10)" by simp_all
    have pos: "0 < decimal_digits (n div 10)"
      by (subst decimal_digits.simps) simp
    have e: "decimal_digits n = Suc (decimal_digits (n div 10))"
      using False by (subst decimal_digits.simps) simp
    have "10 * 10 ^ (decimal_digits (n div 10) - 1) \<le> n"
      using ih(1) by linarith
    moreover have "10 * (10::int) ^ (decimal_digits (n div 10) - 1) = 10 ^ decimal_digits (n div 10)"
      using pos by (cases "decimal_digits (n div 10)") simp_all
    moreover have "n < 10 * 10 ^ decimal_digits (n div 10)"
      using ih(2) by linarith
    ultimately show ?thesis by (simp add: e)
  qed
qed




subsection \<open>Length and separator of a date-time\<close>

text \<open>
  C6, as the program has it. \<^verbatim>\<open>MAX_FRAC_CHAR_LEN\<close> is the number of decimal digits of
  \<^verbatim>\<open>LONG_MAX\<close> (19 on a 64-bit host). \<^verbatim>\<open>touch_parse_date_time\<close> fails, with the
  failure status and the single warning \<^verbatim>\<open>invalid date_time\<close>, and leaves the times,
  the flags, \<^verbatim>\<open>TZ\<close> and the files as they were, whenever the length of the input is
  below 19, or is 20 + \<^verbatim>\<open>MAX_FRAC_CHAR_LEN\<close> + 1 or more, or the character at offset 10
  is neither \<^verbatim>\<open>T\<close> nor a space. The accepted lengths are therefore 19 to
  20 + \<^verbatim>\<open>MAX_FRAC_CHAR_LEN\<close>. An input of such a length with \<^verbatim>\<open>T\<close> or a space at
  offset 10 is never rejected with that warning: it goes to \<^verbatim>\<open>strptime\<close> with the
  separator it has; if \<^verbatim>\<open>strptime\<close> fails, the warning is
  \<^verbatim>\<open>failed to parse date_time\<close>, and if it reads the whole input (and no error was
  recorded before), the seconds are what \<^verbatim>\<open>mktime\<close> returns, without any warning
  unless \<^verbatim>\<open>mktime\<close> fails. The 18 characters \<^verbatim>\<open>2007-11-12T10:15:3\<close> are rejected;
  \<^verbatim>\<open>2007-11-12T10:15:30\<close> and \<^verbatim>\<open>2019-01-01 09:05:00\<close> are resolved, and so is an
  input of 39 characters.
\<close>

theorem touch_parse_date_time_length_separator:
  "(length s < 19 \<or> 20 + decimal_digits (LONG_MAX p) + 1 \<le> length s \<or>
      (s ! 10 \<noteq> CHR ''T'' \<and> s ! 10 \<noteq> CHR '' '') \<longrightarrow>
      status_code (fst (touch_parse_date_time p (t, w) s)) = EXIT_FAILURE \<and>
      stderr (snd (touch_parse_date_time p (t, w) s)) =
        stderr w @ [(False, ''invalid date_time'')] \<and>
      time_am (fst (touch_parse_date_time p (t, w) s)) = time_am t \<and>
      flags (fst (touch_parse_date_time p (t, w) s)) = flags t \<and>
      env_TZ (snd (touch_parse_date_time p (t, w) s)) = env_TZ w \<and>
      syscalls (snd (touch_parse_date_time p (t, w) s)) = syscalls w) \<and>
   (19 \<le> length s \<and> length s \<le> 20 + decimal_digits (LONG_MAX p) \<and>
      (s ! 10 = CHR ''T'' \<or> s ! 10 = CHR '' '') \<longrightarrow>
      (\<exists>ws. stderr (snd (touch_parse_date_time p (t, w) s)) = stderr w @ ws \<and>
            (False, ''invalid date_time'') \<notin> set ws) \<and>
      (strptime s ((''%Y-%m-%d %T'')[8 := s ! 10]) (tm_zero\<lparr>tm_isdst := - 1\<rparr>) = None \<longrightarrow>
         status_code (fst (touch_parse_date_time p (t, w) s)) = EXIT_FAILURE \<and>
         stderr (snd (touch_parse_date_time p (t, w) s)) =
           stderr w @ [(True, ''failed to parse date_time'')]) \<and>
      (\<forall>tm'. strptime s ((''%Y-%m-%d %T'')[8 := s ! 10]) (tm_zero\<lparr>tm_isdst := - 1\<rparr>) =
               Some ([], tm') \<and> status_code t = 0 \<longrightarrow>
         tv_sec (fst (time_am (fst (touch_parse_date_time p (t, w) s)))) =
           mktime p (env_TZ w) tm' \<and>
         tv_sec (snd (time_am (fst (touch_parse_date_time p (t, w) s)))) =
           mktime p (env_TZ w) tm' \<and>
         (mktime p (env_TZ w) tm' \<noteq> - 1 \<longrightarrow>
            status_code (fst (touch_parse_date_time p (t, w) s)) = 0 \<and>
            stderr (snd (touch_parse_date_time p (t, w) s)) = stderr w))) \<and>
   decimal_digits (LONG_MAX host_utc) = 19 \<and>
   touch_parse_date_time host_utc (touch_init, world0) ''2007-11-12T10:15:3'' =
     (\<lparr>flags = 0, status_code = EXIT_FAILURE,
       time_am = (\<lparr>tv_sec = 0, tv_nsec = 0\<rparr>, \<lparr>tv_sec = 0, tv_nsec = 0\<rparr>)\<rparr>,
      \<lparr>env_TZ = None, stderr = [(False, ''invalid date_time'')], MAX_FRAC_CHAR_LEN = 19,
       syscalls = []\<rparr>) \<and>
   touch_parse_date_time host_utc (touch_init, world0) ''2007-11-12T10:15:30'' =
     (\<lparr>flags = 0, status_code = 0,
       time_am = (\<lparr>tv_sec = 1194862530, tv_nsec = 0\<rparr>, \<lparr>tv_sec = 1194862530, tv_nsec = 0\<rparr>)\<rparr>,
      \<lparr>env_TZ = None, stderr = [], MAX_FRAC_CHAR_LEN = 19, syscalls = []\<rparr>) \<and>
   touch_parse_date_time host_utc (touch_init, world0) ''2019-01-01 09:05:00'' =
     (\<lparr>flags = 0, status_code = 0,
       time_am = (\<lparr>tv_sec = 1546333500, tv_nsec = 0\<rparr>, \<lparr>tv_sec = 1546333500, tv_nsec = 0\<rparr>)\<rparr>,
      \<lparr>env_TZ = None, stderr = [], MAX_FRAC_CHAR_LEN = 19, syscalls = []\<rparr>) \<and>
   touch_parse_date_time host_utc (touch_init, world0)
       ''2007-11-12T10:15:30,123456789012345678Z'' =
     (\<lparr>flags = 0, status_code = 0,
       time_am = (\<lparr>tv_sec = 1194862530, tv_nsec = 123456789\<rparr>,
                  \<lparr>tv_sec = 1194862530, tv_nsec = 123456789\<rparr>)\<rparr>,
      \<lparr>env_TZ = Some ''UTC'', stderr = [], MAX_FRAC_CHAR_LEN = 19, syscalls = []\<rparr>)"
proof -
  let ?r = "touch_parse_date_time p (t, w) s"
  let ?fmt = "(''%Y-%m-%d %T'')[8 := s ! 10]"
  let ?tm = "tm_zero\<lparr>tm_isdst := - 1\<rparr>"
  have a: "length s < 19 \<or> 20 + decimal_digits (LONG_MAX p) + 1 \<le> length s \<or>
      (s ! 10 \<noteq> CHR ''T'' \<and> s ! 10 \<noteq> CHR '' '') \<longrightarrow>
      status_code (fst ?r) = EXIT_FAILURE \<and>
      stderr (snd ?r) = stderr w @ [(False, ''invalid date_time'')] \<and>
      time_am (fst ?r) = time_am t \<and> flags (fst ?r) = flags t \<and>
      env_TZ (snd ?r) = env_TZ w \<and> syscalls (snd ?r) = syscalls w"
  proof
    assume h: "length s < 19 \<or> 20 + decimal_digits (LONG_MAX p) + 1 \<le> length s \<or>
      (s ! 10 \<noteq> CHR ''T'' \<and> s ! 10 \<noteq> CHR '' '')"
    show "status_code (fst ?r) = EXIT_FAILURE \<and>
      stderr (snd ?r) = stderr w @ [(False, ''invalid date_time'')] \<and>
      time_am (fst ?r) = time_am t \<and> flags (fst ?r) = flags t \<and>
      env_TZ (snd ?r) = env_TZ w \<and> syscalls (snd ?r) = syscalls w"
      by (simp add: touch_parse_date_time_rejected [OF h])
  qed
  have b: "19 \<le> length s \<and> length s \<le> 20 + decimal_digits (LONG_MAX p) \<and>
      (s ! 10 = CHR ''T'' \<or> s ! 10 = CHR '' '') \<longrightarrow>
      (\<exists>ws. stderr (snd ?r) = stderr w @ ws \<and> (False, ''invalid date_time'') \<notin> set ws) \<and>
      (strptime s ?fmt ?tm = None \<longrightarrow>
         status_code (fst ?r) = EXIT_FAILURE \<and>
         stderr (snd ?r) = stderr w @ [(True, ''failed to parse date_time'')]) \<and>
      (\<forall>tm'. strptime s ?fmt ?tm = Some ([], tm') \<and> status_code t = 0 \<longrightarrow>
         tv_sec (fst (time_am (fst ?r))) = mktime p (env_TZ w) tm' \<and>
         tv_sec (snd (time_am (fst ?r))) = mktime p (env_TZ w) tm' \<and>
         (mktime p (env_TZ w) tm' \<noteq> - 1 \<longrightarrow>
            status_code (fst ?r) = 0 \<and> stderr (snd ?r) = stderr w))"
  proof
    assume h: "19 \<le> length s \<and> length s \<le> 20 + decimal_digits (LONG_MAX p) \<and>
      (s ! 10 = CHR ''T'' \<or> s ! 10 = CHR '' '')"
    then have h1: "19 \<le> length s" and h2: "length s < 20 + decimal_digits (LONG_MAX p) + 1"
      and h3: "s ! 10 = CHR ''T'' \<or> s ! 10 = CHR '' ''" by simp_all
    define wm where "wm = w\<lparr>MAX_FRAC_CHAR_LEN := decimal_digits (LONG_MAX p)\<rparr>"
    note acc = touch_parse_date_time_accepted [OF h1 h2 h3 refl wm_def, of t]
    have wm: "stderr wm = stderr w" "env_TZ wm = env_TZ w" by (simp_all add: wm_def)
    have e: "c_at s (length s) = CHR 0x00" by (simp add: c_at_def)
    have nz: "CHR 0x00 \<noteq> CHR ''Z''" "CHR 0x00 \<noteq> CHR ''.''" "CHR 0x00 \<noteq> CHR '',''" by simp_all
    have fr: "touch_parse_frac p (t, wm) s (length s) = ((t, wm), length s)"
      by (rule touch_parse_frac_none) (simp_all add: e)
    have 1: "\<exists>ws. stderr (snd ?r) = stderr w @ ws \<and> (False, ''invalid date_time'') \<notin> set ws"
      by (rule touch_parse_date_time_new_warnings [OF h1 h2 h3])
    have 2: "strptime s ?fmt ?tm = None \<longrightarrow>
         status_code (fst ?r) = EXIT_FAILURE \<and>
         stderr (snd ?r) = stderr w @ [(True, ''failed to parse date_time'')]"
      by (simp add: acc wm)
    have 3: "\<forall>tm'. strptime s ?fmt ?tm = Some ([], tm') \<and> status_code t = 0 \<longrightarrow>
         tv_sec (fst (time_am (fst ?r))) = mktime p (env_TZ w) tm' \<and>
         tv_sec (snd (time_am (fst ?r))) = mktime p (env_TZ w) tm' \<and>
         (mktime p (env_TZ w) tm' \<noteq> - 1 \<longrightarrow>
            status_code (fst ?r) = 0 \<and> stderr (snd ?r) = stderr w)"
      by (simp add: acc fr e wm Let_def)
    from 1 2 3 show "(\<exists>ws. stderr (snd ?r) = stderr w @ ws \<and>
            (False, ''invalid date_time'') \<notin> set ws) \<and>
      (strptime s ?fmt ?tm = None \<longrightarrow>
         status_code (fst ?r) = EXIT_FAILURE \<and>
         stderr (snd ?r) = stderr w @ [(True, ''failed to parse date_time'')]) \<and>
      (\<forall>tm'. strptime s ?fmt ?tm = Some ([], tm') \<and> status_code t = 0 \<longrightarrow>
         tv_sec (fst (time_am (fst ?r))) = mktime p (env_TZ w) tm' \<and>
         tv_sec (snd (time_am (fst ?r))) = mktime p (env_TZ w) tm' \<and>
         (mktime p (env_TZ w) tm' \<noteq> - 1 \<longrightarrow>
            status_code (fst ?r) = 0 \<and> stderr (snd ?r) = stderr w))"
      by (intro conjI)
  qed
  have c: "decimal_digits (LONG_MAX host_utc) = 19" by code_simp
  have d: "touch_parse_date_time host_utc (touch_init, world0) ''2007-11-12T10:15:3'' =
     (\<lparr>flags = 0, status_code = EXIT_FAILURE,
       time_am = (\<lparr>tv_sec = 0, tv_nsec = 0\<rparr>, \<lparr>tv_sec = 0, tv_nsec = 0\<rparr>)\<rparr>,
      \<lparr>env_TZ = None, stderr = [(False, ''invalid date_time'')], MAX_FRAC_CHAR_LEN = 19,
       syscalls = []\<rparr>)"
    by code_simp
  have e: "touch_parse_date_time host_utc (touch_init, world0) ''2007-11-12T10:15:30'' =
     (\<lparr>flags = 0, status_code = 0,
       time_am = (\<lparr>tv_sec = 1194862530, tv_nsec = 0\<rparr>, \<lparr>tv_sec = 1194862530, tv_nsec = 0\<rparr>)\<rparr>,
      \<lparr>env_TZ = None, stderr = [], MAX_FRAC_CHAR_LEN = 19, syscalls = []\<rparr>)"
    by code_simp
  have f: "touch_parse_date_time host_utc (touch_init, world0) ''2019-01-01 09:05:00'' =
     (\<lparr>flags = 0, status_code = 0,
       time_am = (\<lparr>tv_sec = 1546333500, tv_nsec = 0\<rparr>, \<lparr>tv_sec = 1546333500, tv_nsec = 0\<rparr>)\<rparr>,
      \<lparr>env_TZ = None, stderr = [], MAX_FRAC_CHAR_LEN = 19, syscalls = []\<rparr>)"
    by code_simp
  have g: "touch_parse_date_time host_utc (touch_init, world0)
       ''2007-11-12T10:15:30,123456789012345678Z'' =
     (\<lparr>flags = 0, status_code = 0,
       time_am = (\<lparr>tv_sec = 1194862530, tv_nsec = 123456789\<rparr>,
                  \<lparr>tv_sec = 1194862530, tv_nsec = 123456789\<rparr>)\<rparr>,
      \<lparr>env_TZ = Some ''UTC'', stderr = [], MAX_FRAC_CHAR_LEN = 19, syscalls = []\<rparr>)"
    by code_simp
  from a b c d e f g show ?thesis by (intro conjI)
qed

theorem touch_parse_date_time_length_separator_witness:
  "length ''2007-11-12T10:15:3'' < 19 \<and>
   status_code (fst (touch_parse_date_time host_utc (touch_init, world0)
                       ''2007-11-12T10:15:3'')) = EXIT_FAILURE \<and>
   stderr (snd (touch_parse_date_time host_utc (touch_init, world0) ''2007-11-12T10:15:3'')) =
     stderr world0 @ [(False, ''invalid date_time'')] \<and>
   time_am (fst (touch_parse_date_time host_utc (touch_init, world0) ''2007-11-12T10:15:3'')) =
     time_am touch_init \<and>
   19 \<le> length ''2019-01-01 09:05:00'' \<and>
   length ''2019-01-01 09:05:00'' \<le> 20 + decimal_digits (LONG_MAX host_utc) \<and>
   ''2019-01-01 09:05:00'' ! 10 = CHR '' '' \<and>
   strptime ''2019-01-01 09:05:00'' ((''%Y-%m-%d %T'')[8 := ''2019-01-01 09:05:00'' ! 10])
       (tm_zero\<lparr>tm_isdst := - 1\<rparr>) =
     Some ([], \<lparr>tm_sec = 0, tm_min = 5, tm_hour = 9, tm_mday = 1, tm_mon = 0, tm_year = 119,
                 tm_isdst = - 1\<rparr>) \<and>
   status_code touch_init = 0 \<and>
   mktime host_utc (env_TZ world0)
     \<lparr>tm_sec = 0, tm_min = 5, tm_hour = 9, tm_mday = 1, tm_mon = 0, tm_year = 119,
      tm_isdst = - 1\<rparr> = 1546333500 \<and>
   tv_sec (fst (time_am (fst (touch_parse_date_time host_utc (touch_init, world0)
                                ''2019-01-01 09:05:00'')))) = 1546333500 \<and>
   status_code (fst (touch_parse_date_time host_utc (touch_init, world0)
                       ''2019-01-01 09:05:00'')) = 0 \<and>
   stderr (snd (touch_parse_date_time host_utc (touch_init, world0) ''2019-01-01 09:05:00'')) =
     stderr world0"
proof -
  let ?s1 = "''2007-11-12T10:15:3''"
  let ?s2 = "''2019-01-01 09:05:00''"
  let ?tm = "\<lparr>tm_sec = 0, tm_min = 5, tm_hour = 9, tm_mday = 1, tm_mon = 0, tm_year = 119,
              tm_isdst = - 1\<rparr>"
  let ?r1 = "touch_parse_date_time host_utc (touch_init, world0) ?s1"
  let ?r2 = "touch_parse_date_time host_utc (touch_init, world0) ?s2"
  have h1: "length ?s1 < 19" by simp
  have h2: "19 \<le> length ?s2" by simp
  have h3: "length ?s2 \<le> 20 + decimal_digits (LONG_MAX host_utc)" by code_simp
  have h4: "?s2 ! 10 = CHR '' ''" by simp
  have h5: "strptime ?s2 ((''%Y-%m-%d %T'')[8 := ?s2 ! 10]) (tm_zero\<lparr>tm_isdst := - 1\<rparr>) =
              Some ([], ?tm)"
    by code_simp
  have h6: "status_code touch_init = 0" by code_simp
  have h7: "mktime host_utc (env_TZ world0) ?tm = 1546333500" by code_simp
  then have h7': "mktime host_utc (env_TZ world0) ?tm \<noteq> - 1" by simp
  note th1 = touch_parse_date_time_length_separator [of ?s1 host_utc touch_init world0]
  note th2 = touch_parse_date_time_length_separator [of ?s2 host_utc touch_init world0]
  from th1 h1 have c1: "status_code (fst ?r1) = EXIT_FAILURE"
    and c2: "stderr (snd ?r1) = stderr world0 @ [(False, ''invalid date_time'')]"
    and c3: "time_am (fst ?r1) = time_am touch_init"
    by blast+
  from th2 h2 h3 h4 h5 h6
  have c4': "tv_sec (fst (time_am (fst ?r2))) = mktime host_utc (env_TZ world0) ?tm"
    by blast
  from th2 h2 h3 h4 h5 h6 h7'
  have c5: "status_code (fst ?r2) = 0" and c6: "stderr (snd ?r2) = stderr world0"
    by blast+
  from c4' h7 have c4: "tv_sec (fst (time_am (fst ?r2))) = 1546333500" by simp
  from h1 c1 c2 c3 h2 h3 h4 h5 h6 h7 c4 c5 c6 show ?thesis by (intro conjI)
qed

text \<open>
  C6 as the claim has it, with the bounds of the specification (lengths 19 to
  20 + MaxFracDigits + 1), fails at the upper bound: an input of 40 characters with
  \<^verbatim>\<open>T\<close> at offset 10 is rejected by the length test on a 64-bit host.
\<close>

theorem length_bound_counterexample:
  "length ''2007-11-12T10:15:30,1234567890123456789Z'' =
     20 + decimal_digits (LONG_MAX host_utc) + 1 \<and>
   ''2007-11-12T10:15:30,1234567890123456789Z'' ! 10 = CHR ''T'' \<and>
   touch_parse_date_time host_utc (touch_init, world0)
       ''2007-11-12T10:15:30,1234567890123456789Z'' =
     (\<lparr>flags = 0, status_code = EXIT_FAILURE,
       time_am = (\<lparr>tv_sec = 0, tv_nsec = 0\<rparr>, \<lparr>tv_sec = 0, tv_nsec = 0\<rparr>)\<rparr>,
      \<lparr>env_TZ = None, stderr = [(False, ''invalid date_time'')], MAX_FRAC_CHAR_LEN = 19,
       syscalls = []\<rparr>)"
  by code_simp

subsection \<open>The UTC marker and trailing characters\<close>

lemma c_at_not_NUL: "CHR 0x00 \<notin> set s \<Longrightarrow> i < length s \<Longrightarrow> c_at s i \<noteq> CHR 0x00"
  by (metis c_at_def nth_mem)

lemma c_at_end [simp]: "c_at s (length s) = CHR 0x00"
  by (simp add: c_at_def)

text \<open>
  C9. Let \<^verbatim>\<open>strptime\<close> accept the date and time and \<^verbatim>\<open>touch_parse_frac\<close> leave the
  cursor at position \<open>k\<close>, and let \<^verbatim>\<open>setenv\<close> succeed. If the character at \<open>k\<close> is
  \<^verbatim>\<open>Z\<close>, then \<^verbatim>\<open>TZ\<close> is \<^verbatim>\<open>UTC\<close> when the function returns; the cursor moves past
  the \<^verbatim>\<open>Z\<close>: if the string ends there (and no error was recorded) the seconds are
  what \<^verbatim>\<open>mktime\<close> returns with \<^verbatim>\<open>TZ=UTC\<close>, and if characters follow, the parse fails
  with the warning \<^verbatim>\<open>failed to parse date_time\<close> and \<^verbatim>\<open>TZ\<close> stays \<^verbatim>\<open>UTC\<close>. Without
  a \<^verbatim>\<open>Z\<close>, any character at \<open>k\<close> makes the parse fail in the same way. In particular
  \<^verbatim>\<open>-d 2007-11-12T10:15:30Z1\<close> fails so.
\<close>

theorem touch_parse_date_time_utc_marker:
  assumes "19 \<le> length s" and "length s < 20 + decimal_digits (LONG_MAX p) + 1"
      and "s ! 10 = CHR ''T'' \<or> s ! 10 = CHR '' ''"
      and "CHR 0x00 \<notin> set s"
      and "strptime s ((''%Y-%m-%d %T'')[8 := s ! 10]) (tm_zero\<lparr>tm_isdst := - 1\<rparr>) =
             Some (rest, tm')"
      and "touch_parse_frac p (t, w\<lparr>MAX_FRAC_CHAR_LEN := decimal_digits (LONG_MAX p)\<rparr>) s
             (length s - length rest) = ((t1, w1), k)"
      and "setenv_ok p"
  shows
   "(c_at s k = CHR ''Z'' \<longrightarrow>
       env_TZ (snd (touch_parse_date_time p (t, w) s)) = Some ''UTC'') \<and>
    (c_at s k = CHR ''Z'' \<and> status_code t1 = 0 \<and> length s = k + 1 \<longrightarrow>
       tv_sec (fst (time_am (fst (touch_parse_date_time p (t, w) s)))) =
         mktime p (Some ''UTC'') tm' \<and>
       tv_sec (snd (time_am (fst (touch_parse_date_time p (t, w) s)))) =
         mktime p (Some ''UTC'') tm') \<and>
    (c_at s k = CHR ''Z'' \<and> k + 1 < length s \<longrightarrow>
       touch_parse_date_time p (t, w) s =
         touch_warn (t1, w1\<lparr>env_TZ := Some ''UTC''\<rparr>) False ''failed to parse date_time'') \<and>
    (c_at s k \<noteq> CHR ''Z'' \<and> k < length s \<longrightarrow>
       touch_parse_date_time p (t, w) s =
         touch_warn (t1, w1) False ''failed to parse date_time'') \<and>
    touch_main_options host_utc (touch_init, world0) [(CHR ''d'', ''2007-11-12T10:15:30Z1'')] =
      (touch_init\<lparr>flags := TOUCH_FLAG_DATE_TIME, status_code := EXIT_FAILURE\<rparr>,
       world0\<lparr>env_TZ := Some ''UTC'', stderr := [(False, ''failed to parse date_time'')],
              MAX_FRAC_CHAR_LEN := 19\<rparr>)"
proof -
  note acc = touch_parse_date_time_accepted [OF assms(1-3) refl refl, of t w,
      unfolded assms(5) option.case prod.case assms(6)]
  have a: "c_at s k = CHR ''Z'' \<longrightarrow>
       env_TZ (snd (touch_parse_date_time p (t, w) s)) = Some ''UTC''"
    using assms(7) by (simp add: acc Let_def)
  have b: "c_at s k = CHR ''Z'' \<and> status_code t1 = 0 \<and> length s = k + 1 \<longrightarrow>
       tv_sec (fst (time_am (fst (touch_parse_date_time p (t, w) s)))) =
         mktime p (Some ''UTC'') tm' \<and>
       tv_sec (snd (time_am (fst (touch_parse_date_time p (t, w) s)))) =
         mktime p (Some ''UTC'') tm'"
  proof (intro impI)
    assume h: "c_at s k = CHR ''Z'' \<and> status_code t1 = 0 \<and> length s = k + 1"
    then have "c_at s (k + 1) = CHR 0x00"
      by (simp add: c_at_def)
    with h assms(7) show "tv_sec (fst (time_am (fst (touch_parse_date_time p (t, w) s)))) =
         mktime p (Some ''UTC'') tm' \<and>
       tv_sec (snd (time_am (fst (touch_parse_date_time p (t, w) s)))) =
         mktime p (Some ''UTC'') tm'"
      by (simp add: acc Let_def)
  qed
  have c: "c_at s k = CHR ''Z'' \<and> k + 1 < length s \<longrightarrow>
       touch_parse_date_time p (t, w) s =
         touch_warn (t1, w1\<lparr>env_TZ := Some ''UTC''\<rparr>) False ''failed to parse date_time''"
    using assms(7) c_at_not_NUL [OF assms(4), of "k + 1"] by (auto simp add: acc Let_def)
  have d: "c_at s k \<noteq> CHR ''Z'' \<and> k < length s \<longrightarrow>
       touch_parse_date_time p (t, w) s =
         touch_warn (t1, w1) False ''failed to parse date_time''"
    using c_at_not_NUL [OF assms(4), of k] by (auto simp add: acc Let_def)
  have e: "touch_main_options host_utc (touch_init, world0)
        [(CHR ''d'', ''2007-11-12T10:15:30Z1'')] =
      (touch_init\<lparr>flags := TOUCH_FLAG_DATE_TIME, status_code := EXIT_FAILURE\<rparr>,
       world0\<lparr>env_TZ := Some ''UTC'', stderr := [(False, ''failed to parse date_time'')],
              MAX_FRAC_CHAR_LEN := 19\<rparr>)"
    by code_simp
  from a b c d e show ?thesis by blast
qed

theorem touch_parse_date_time_utc_marker_witness:
  "19 \<le> length ''2007-11-12T10:15:30Z'' \<and>
   length ''2007-11-12T10:15:30Z'' < 20 + decimal_digits (LONG_MAX host_utc) + 1 \<and>
   ''2007-11-12T10:15:30Z'' ! 10 = CHR ''T'' \<and>
   CHR 0x00 \<notin> set ''2007-11-12T10:15:30Z'' \<and>
   strptime ''2007-11-12T10:15:30Z''
      ((''%Y-%m-%d %T'')[8 := ''2007-11-12T10:15:30Z'' ! 10]) (tm_zero\<lparr>tm_isdst := - 1\<rparr>) =
     Some (''Z'', \<lparr>tm_sec = 30, tm_min = 15, tm_hour = 10, tm_mday = 12, tm_mon = 10,
                   tm_year = 107, tm_isdst = - 1\<rparr>) \<and>
   touch_parse_frac host_utc
      (touch_init, world0\<lparr>MAX_FRAC_CHAR_LEN := decimal_digits (LONG_MAX host_utc)\<rparr>)
      ''2007-11-12T10:15:30Z'' (length ''2007-11-12T10:15:30Z'' - length ''Z'') =
     ((touch_init, world0\<lparr>MAX_FRAC_CHAR_LEN := 19\<rparr>), 19) \<and>
   setenv_ok host_utc \<and>
   c_at ''2007-11-12T10:15:30Z'' 19 = CHR ''Z'' \<and>
   status_code touch_init = 0 \<and>
   length ''2007-11-12T10:15:30Z'' = 19 + 1 \<and>
   env_TZ (snd (touch_parse_date_time host_utc (touch_init, world0) ''2007-11-12T10:15:30Z'')) =
     Some ''UTC'' \<and>
   tv_sec (fst (time_am (fst (touch_parse_date_time host_utc (touch_init, world0)
                                ''2007-11-12T10:15:30Z'')))) =
     mktime host_utc (Some ''UTC'')
       \<lparr>tm_sec = 30, tm_min = 15, tm_hour = 10, tm_mday = 12, tm_mon = 10,
        tm_year = 107, tm_isdst = - 1\<rparr>"
proof -
  let ?s = "''2007-11-12T10:15:30Z''"
  let ?tm = "\<lparr>tm_sec = 30, tm_min = 15, tm_hour = 10, tm_mday = 12, tm_mon = 10,
              tm_year = 107, tm_isdst = - 1\<rparr>"
  have h1: "19 \<le> length ?s" by simp
  have h2: "length ?s < 20 + decimal_digits (LONG_MAX host_utc) + 1" by code_simp
  have h3': "?s ! 10 = CHR ''T''" by simp
  then have h3: "?s ! 10 = CHR ''T'' \<or> ?s ! 10 = CHR '' ''" by blast
  have h4: "CHR 0x00 \<notin> set ?s" by simp
  have h5: "strptime ?s ((''%Y-%m-%d %T'')[8 := ?s ! 10]) (tm_zero\<lparr>tm_isdst := - 1\<rparr>) =
              Some (''Z'', ?tm)"
    by code_simp
  have h6: "touch_parse_frac host_utc
      (touch_init, world0\<lparr>MAX_FRAC_CHAR_LEN := decimal_digits (LONG_MAX host_utc)\<rparr>)
      ?s (length ?s - length ''Z'') = ((touch_init, world0\<lparr>MAX_FRAC_CHAR_LEN := 19\<rparr>), 19)"
    by code_simp
  have h7: "setenv_ok host_utc" by code_simp
  have z: "c_at ?s 19 = CHR ''Z''" by code_simp
  have st: "status_code touch_init = 0" by code_simp
  have len: "length ?s = 19 + 1" by simp
  note th = touch_parse_date_time_utc_marker [OF h1 h2 h3 h4 h5 h6 h7]
  from th z have c1: "env_TZ (snd (touch_parse_date_time host_utc (touch_init, world0) ?s)) =
     Some ''UTC''"
    by blast
  from th z st len
  have c2: "tv_sec (fst (time_am (fst (touch_parse_date_time host_utc (touch_init, world0) ?s)))) =
     mktime host_utc (Some ''UTC'') ?tm"
    by blast
  from h1 h2 h3' h4 h5 h6 h7 z st len c1 c2 show ?thesis by blast
qed

subsection \<open>A separator without digits\<close>

lemma takeWhile_isdigit_drop_empty:
  "\<not> isdigit (c_at s i) \<Longrightarrow> takeWhile isdigit (drop i s) = []"
proof (cases "i < length s")
  case True
  assume "\<not> isdigit (c_at s i)"
  with True have "\<not> isdigit (s ! i)" by (simp add: c_at_def)
  moreover have "drop i s = s ! i # drop (Suc i) s"
    using True by (simp add: Cons_nth_drop_Suc)
  ultimately show ?thesis by simp
next
  case False
  then show ?thesis by simp
qed

text \<open>
  C3, as the program has it. Let \<^verbatim>\<open>strptime\<close> accept the date and time and leave the
  cursor on a separator (\<^verbatim>\<open>.\<close> or \<^verbatim>\<open>,\<close>) that no digit follows. Then
  \<^verbatim>\<open>touch_parse_frac\<close> passes the string \<^verbatim>\<open>.\<close> to \<^verbatim>\<open>strtod\<close>, and the parse
  fails in either case. Where \<^verbatim>\<open>strtod\<close> leaves \<^verbatim>\<open>errno\<close> at 0 for it (no conversion
  is performed, the end pointer is the start of the string), the nanoseconds are set to
  0, the cursor steps back onto the separator, and the only warning is
  \<^verbatim>\<open>failed to parse date_time\<close> of the trailing-characters check. Only where
  \<^verbatim>\<open>strtod\<close> sets \<^verbatim>\<open>errno\<close> is \<^verbatim>\<open>failed to parse frac\<close> reported; the times are
  then left as they were.
\<close>

theorem touch_parse_date_time_separator_without_digits:
  assumes "19 \<le> length s" and "length s < 20 + decimal_digits (LONG_MAX p) + 1"
      and "s ! 10 = CHR ''T'' \<or> s ! 10 = CHR '' ''"
      and "strptime s ((''%Y-%m-%d %T'')[8 := s ! 10]) (tm_zero\<lparr>tm_isdst := - 1\<rparr>) =
             Some (rest, tm')"
      and "c_at s (length s - length rest) = CHR ''.'' \<or>
           c_at s (length s - length rest) = CHR '',''"
      and "\<not> isdigit (c_at s (length s - length rest + 1))"
      and "malloc_ok p"
  shows
   "(strtod_errno p ''.'' = 0 \<longrightarrow>
       touch_parse_date_time p (t, w) s =
         touch_warn (set_tv_nsec t 0, w\<lparr>MAX_FRAC_CHAR_LEN := decimal_digits (LONG_MAX p)\<rparr>)
           False ''failed to parse date_time'') \<and>
    (strtod_errno p ''.'' \<noteq> 0 \<longrightarrow>
       (\<exists>ws. stderr (snd (touch_parse_date_time p (t, w) s)) =
               stderr w @ (True, ''failed to parse frac'') # ws) \<and>
       status_code (fst (touch_parse_date_time p (t, w) s)) = EXIT_FAILURE \<and>
       time_am (fst (touch_parse_date_time p (t, w) s)) = time_am t)"
proof -
  define k where "k = length s - length rest"
  define wm where "wm = w\<lparr>MAX_FRAC_CHAR_LEN := decimal_digits (LONG_MAX p)\<rparr>"
  have ds: "[] = take (MAX_FRAC_CHAR_LEN (snd (t, wm)) - 1) (takeWhile isdigit (drop (k + 1) s))"
    using takeWhile_isdigit_drop_empty [OF assms(6)] by (simp add: k_def)
  note fr = touch_parse_frac_sep [OF assms(5) [folded k_def] assms(7) ds]
  note acc = touch_parse_date_time_accepted [OF assms(1-3) refl wm_def, of t,
      unfolded assms(4) option.case prod.case, folded k_def]
  have sepZ: "c_at s k \<noteq> CHR ''Z''" and sep0: "c_at s k \<noteq> CHR 0x00"
    using assms(5) by (auto simp add: k_def)
  have wm_s: "stderr wm = stderr w"
    by (simp add: wm_def)
  have a: "strtod_errno p ''.'' = 0 \<longrightarrow>
       touch_parse_date_time p (t, w) s =
         touch_warn (set_tv_nsec t 0, wm) False ''failed to parse date_time''"
    using sepZ sep0 by (simp add: acc fr)
  have b: "strtod_errno p ''.'' \<noteq> 0 \<longrightarrow>
       (\<exists>ws. stderr (snd (touch_parse_date_time p (t, w) s)) =
               stderr w @ (True, ''failed to parse frac'') # ws) \<and>
       status_code (fst (touch_parse_date_time p (t, w) s)) = EXIT_FAILURE \<and>
       time_am (fst (touch_parse_date_time p (t, w) s)) = time_am t"
    using wm_s by (auto simp add: acc fr)
  from a b show ?thesis
    unfolding wm_def by blast
qed

theorem touch_parse_date_time_separator_without_digits_witness:
  "19 \<le> length ''2007-11-12T10:15:30.'' \<and>
   length ''2007-11-12T10:15:30.'' < 20 + decimal_digits (LONG_MAX host_utc) + 1 \<and>
   ''2007-11-12T10:15:30.'' ! 10 = CHR ''T'' \<and>
   strptime ''2007-11-12T10:15:30.''
      ((''%Y-%m-%d %T'')[8 := ''2007-11-12T10:15:30.'' ! 10]) (tm_zero\<lparr>tm_isdst := - 1\<rparr>) =
     Some (''.'', \<lparr>tm_sec = 30, tm_min = 15, tm_hour = 10, tm_mday = 12, tm_mon = 10,
                   tm_year = 107, tm_isdst = - 1\<rparr>) \<and>
   c_at ''2007-11-12T10:15:30.'' (length ''2007-11-12T10:15:30.'' - length ''.'') = CHR ''.'' \<and>
   \<not> isdigit (c_at ''2007-11-12T10:15:30.''
                 (length ''2007-11-12T10:15:30.'' - length ''.'' + 1)) \<and>
   malloc_ok host_utc \<and> strtod_errno host_utc ''.'' = 0 \<and>
   touch_parse_date_time host_utc (touch_init, world0) ''2007-11-12T10:15:30.'' =
     touch_warn
       (set_tv_nsec touch_init 0,
        world0\<lparr>MAX_FRAC_CHAR_LEN := decimal_digits (LONG_MAX host_utc)\<rparr>)
       False ''failed to parse date_time'' \<and>
   malloc_ok host_strtod_fails \<and> strtod_errno host_strtod_fails ''.'' = 34 \<and>
   status_code (fst (touch_parse_date_time host_strtod_fails (touch_init, world0)
                       ''2007-11-12T10:15:30.'')) = EXIT_FAILURE \<and>
   time_am (fst (touch_parse_date_time host_strtod_fails (touch_init, world0)
                   ''2007-11-12T10:15:30.'')) = time_am touch_init"
proof -
  let ?s = "''2007-11-12T10:15:30.''"
  let ?tm = "\<lparr>tm_sec = 30, tm_min = 15, tm_hour = 10, tm_mday = 12, tm_mon = 10,
              tm_year = 107, tm_isdst = - 1\<rparr>"
  have h1: "19 \<le> length ?s" by simp
  have h2: "length ?s < 20 + decimal_digits (LONG_MAX host_utc) + 1" by code_simp
  have h2': "length ?s < 20 + decimal_digits (LONG_MAX host_strtod_fails) + 1" by code_simp
  have h3': "?s ! 10 = CHR ''T''" by simp
  then have h3: "?s ! 10 = CHR ''T'' \<or> ?s ! 10 = CHR '' ''" by blast
  have h4: "strptime ?s ((''%Y-%m-%d %T'')[8 := ?s ! 10]) (tm_zero\<lparr>tm_isdst := - 1\<rparr>) =
              Some (''.'', ?tm)"
    by code_simp
  have h5': "c_at ?s (length ?s - length ''.'') = CHR ''.''" by code_simp
  then have h5: "c_at ?s (length ?s - length ''.'') = CHR ''.'' \<or>
                 c_at ?s (length ?s - length ''.'') = CHR '',''" by blast
  have h6: "\<not> isdigit (c_at ?s (length ?s - length ''.'' + 1))" by code_simp
  have h7: "malloc_ok host_utc" by code_simp
  have h7': "malloc_ok host_strtod_fails" by code_simp
  have e0: "strtod_errno host_utc ''.'' = 0" by code_simp
  have e1: "strtod_errno host_strtod_fails ''.'' = 34" by code_simp
  then have e1': "strtod_errno host_strtod_fails ''.'' \<noteq> 0" by simp
  from touch_parse_date_time_separator_without_digits
         [OF h1 h2 h3 h4 h5 h6 h7, of touch_init world0] e0
  have c1: "touch_parse_date_time host_utc (touch_init, world0) ?s =
     touch_warn
       (set_tv_nsec touch_init 0,
        world0\<lparr>MAX_FRAC_CHAR_LEN := decimal_digits (LONG_MAX host_utc)\<rparr>)
       False ''failed to parse date_time''"
    by blast
  from touch_parse_date_time_separator_without_digits
         [OF h1 h2' h3 h4 h5 h6 h7', of touch_init world0] e1'
  have c2: "status_code (fst (touch_parse_date_time host_strtod_fails (touch_init, world0) ?s))
              = EXIT_FAILURE"
    and c3: "time_am (fst (touch_parse_date_time host_strtod_fails (touch_init, world0) ?s))
              = time_am touch_init"
    by blast+
  from h1 h2 h3' h4 h5' h6 h7 e0 c1 h7' e1 c2 c3 show ?thesis by blast
qed

text \<open>
  C3 as the claim has it fails where \<^verbatim>\<open>strtod\<close> follows the C standard and the GNU C
  library: for \<^verbatim>\<open>-d 2007-11-12T10:15:30.\<close> the only warning is
  \<^verbatim>\<open>failed to parse date_time\<close>; \<^verbatim>\<open>failed to parse frac\<close> is not reported.
\<close>

theorem separator_without_digits_counterexample:
  "stderr (snd (touch_parse_date_time host_utc (touch_init, world0) ''2007-11-12T10:15:30.'')) =
     [(False, ''failed to parse date_time'')] \<and>
   (True, ''failed to parse frac'') \<notin>
     set (stderr (snd (touch_parse_date_time host_utc (touch_init, world0)
                         ''2007-11-12T10:15:30.'')))"
proof -
  have "stderr (snd (touch_parse_date_time host_utc (touch_init, world0)
                       ''2007-11-12T10:15:30.'')) = [(False, ''failed to parse date_time'')]"
    by code_simp
  then show ?thesis by simp
qed

subsection \<open>What a failed parse leaves behind\<close>

lemma touch_parse_date_time_outcome:
  "\<exists>ws. stderr (snd (touch_parse_date_time p (t, w) s)) = stderr w @ ws \<and>
     (ws \<noteq> [] \<longrightarrow> status_code (fst (touch_parse_date_time p (t, w) s)) = EXIT_FAILURE) \<and>
     (ws \<noteq> [] \<and> (True, ''mktime'') \<notin> set ws \<longrightarrow>
        tv_sec (fst (time_am (fst (touch_parse_date_time p (t, w) s)))) =
          tv_sec (fst (time_am t)) \<and>
        tv_sec (snd (time_am (fst (touch_parse_date_time p (t, w) s)))) =
          tv_sec (snd (time_am t))) \<and>
     ((True, ''mktime'') \<in> set ws \<longrightarrow>
        tv_sec (fst (time_am (fst (touch_parse_date_time p (t, w) s)))) = - 1 \<and>
        tv_sec (snd (time_am (fst (touch_parse_date_time p (t, w) s)))) = - 1) \<and>
     ((True, ''malloc: frac_str'') \<in> set ws \<or> (True, ''failed to parse frac'') \<in> set ws \<or>
      (False, ''invalid date_time'') \<in> set ws \<or> (True, ''failed to parse date_time'') \<in> set ws
        \<longrightarrow> time_am (fst (touch_parse_date_time p (t, w) s)) = time_am t) \<and>
     (status_code t \<noteq> 0 \<longrightarrow> status_code (fst (touch_parse_date_time p (t, w) s)) \<noteq> 0) \<and>
     syscalls (snd (touch_parse_date_time p (t, w) s)) = syscalls w"
proof (cases "length s < 19 \<or> 20 + decimal_digits (LONG_MAX p) + 1 \<le> length s \<or>
           (s ! 10 \<noteq> CHR ''T'' \<and> s ! 10 \<noteq> CHR '' '')")
  case True
  show ?thesis
    by (rule exI [of _ "[(False, ''invalid date_time'')]"])
       (simp add: touch_parse_date_time_rejected [OF True])
next
  case False
  then have b: "19 \<le> length s" "length s < 20 + decimal_digits (LONG_MAX p) + 1"
    "s ! 10 = CHR ''T'' \<or> s ! 10 = CHR '' ''" by auto
  define fmt where "fmt = (''%Y-%m-%d %T'')[8 := s ! 10]"
  define wm where "wm = w\<lparr>MAX_FRAC_CHAR_LEN := decimal_digits (LONG_MAX p)\<rparr>"
  note acc = touch_parse_date_time_accepted [OF b fmt_def wm_def, of t]
  have wm: "stderr wm = stderr w" "syscalls wm = syscalls w" by (simp_all add: wm_def)
  show ?thesis
  proof (cases "strptime s fmt (tm_zero\<lparr>tm_isdst := - 1\<rparr>)")
    case None
    show ?thesis
      by (rule exI [of _ "[(True, ''failed to parse date_time'')]"])
         (simp add: acc None wm)
  next
    case (Some a)
    obtain rest tm' where a: "a = (rest, tm')" by (cases a)
    show ?thesis
      using touch_parse_frac_cases [of p "(t, wm)" s "length s - length rest"]
      by (auto simp add: acc Some a Let_def wm)
  qed
qed

lemma touch_parse_time_outcome:
  "\<exists>ws. stderr (snd (touch_parse_time p (t, w) s)) = stderr w @ ws \<and>
     (ws \<noteq> [] \<longrightarrow> status_code (fst (touch_parse_time p (t, w) s)) = EXIT_FAILURE) \<and>
     (ws \<noteq> [] \<and> (True, ''mktime'') \<notin> set ws \<longrightarrow>
        time_am (fst (touch_parse_time p (t, w) s)) = time_am t) \<and>
     ((True, ''mktime'') \<in> set ws \<longrightarrow>
        tv_sec (fst (time_am (fst (touch_parse_time p (t, w) s)))) = - 1 \<and>
        tv_sec (snd (time_am (fst (touch_parse_time p (t, w) s)))) = - 1 \<and>
        tv_nsec (fst (time_am (fst (touch_parse_time p (t, w) s)))) = tv_nsec (fst (time_am t)) \<and>
        tv_nsec (snd (time_am (fst (touch_parse_time p (t, w) s)))) = tv_nsec (snd (time_am t))) \<and>
     (status_code t \<noteq> 0 \<longrightarrow> status_code (fst (touch_parse_time p (t, w) s)) \<noteq> 0) \<and>
     syscalls (snd (touch_parse_time p (t, w) s)) = syscalls w"
  by (auto simp add: touch_parse_time_def Let_def split: option.splits)

lemma touch_get_time_ref_file_outcome:
  "\<exists>ws. stderr (snd (touch_get_time_ref_file p (t, w) path)) = stderr w @ ws \<and>
     (ws \<noteq> [] \<longrightarrow> status_code (fst (touch_get_time_ref_file p (t, w) path)) = EXIT_FAILURE) \<and>
     (status_code t \<noteq> 0 \<longrightarrow> status_code (fst (touch_get_time_ref_file p (t, w) path)) \<noteq> 0) \<and>
     syscalls (snd (touch_get_time_ref_file p (t, w) path)) = syscalls w"
  by (auto simp add: touch_get_time_ref_file_def split: option.splits)

text \<open>
  One option: warnings are only added, a warning sets the failure status, a failure
  status stays, and no file is touched.
\<close>

lemma touch_main_option_outcome:
  "\<exists>ws. stderr (snd (touch_main_option p tw co)) = stderr (snd tw) @ ws \<and>
     (ws \<noteq> [] \<longrightarrow> status_code (fst (touch_main_option p tw co)) \<noteq> 0) \<and>
     (status_code (fst tw) \<noteq> 0 \<longrightarrow> status_code (fst (touch_main_option p tw co)) \<noteq> 0) \<and>
     syscalls (snd (touch_main_option p tw co)) = syscalls (snd tw)"
proof -
  obtain t w where tw: "tw = (t, w)" by (cases tw)
  obtain c optarg where co: "co = (c, optarg)" by (cases co)
  show ?thesis
    using touch_parse_date_time_outcome [of p t w optarg]
      touch_parse_time_outcome [of p t w optarg]
      touch_get_time_ref_file_outcome [of p t w optarg]
    unfolding tw co touch_main_option_def Let_def prod.case fst_conv snd_conv
    by (cases "c = CHR ''a''"; cases "c = CHR ''c''"; cases "c = CHR ''d''";
        cases "c = CHR ''m''"; cases "c = CHR ''r''"; cases "c = CHR ''t''")
       (simp_all, (metis EXIT_FAILURE_neq_0)+)
qed

lemma touch_main_options_outcome:
  "\<exists>ws. stderr (snd (touch_main_options p tw opts)) = stderr (snd tw) @ ws \<and>
     (ws \<noteq> [] \<longrightarrow> status_code (fst (touch_main_options p tw opts)) \<noteq> 0) \<and>
     (status_code (fst tw) \<noteq> 0 \<longrightarrow> status_code (fst (touch_main_options p tw opts)) \<noteq> 0) \<and>
     syscalls (snd (touch_main_options p tw opts)) = syscalls (snd tw)"
proof (induction opts arbitrary: tw)
  case Nil
  show ?case by simp
next
  case (Cons co opts)
  let ?tw1 = "touch_main_option p tw co"
  obtain ws1 where 1: "stderr (snd ?tw1) = stderr (snd tw) @ ws1"
      "ws1 \<noteq> [] \<longrightarrow> status_code (fst ?tw1) \<noteq> 0"
      "status_code (fst tw) \<noteq> 0 \<longrightarrow> status_code (fst ?tw1) \<noteq> 0"
      "syscalls (snd ?tw1) = syscalls (snd tw)"
    using touch_main_option_outcome [of p tw co] by blast
  obtain ws2 where 2: "stderr (snd (touch_main_options p ?tw1 opts)) = stderr (snd ?tw1) @ ws2"
      "ws2 \<noteq> [] \<longrightarrow> status_code (fst (touch_main_options p ?tw1 opts)) \<noteq> 0"
      "status_code (fst ?tw1) \<noteq> 0 \<longrightarrow> status_code (fst (touch_main_options p ?tw1 opts)) \<noteq> 0"
      "syscalls (snd (touch_main_options p ?tw1 opts)) = syscalls (snd ?tw1)"
    using Cons.IH [of ?tw1] by blast
  show ?case
    by (rule exI [of _ "ws1 @ ws2"]) (use 1 2 in auto)
qed

lemma touch_main_no_syscalls:
  assumes "status_code (fst (touch_main_options p (touch_init, w) opts)) \<noteq> 0"
  shows "syscalls (snd (touch_main p w opts argv)) = syscalls w"
  using assms touch_main_options_outcome [of p "(touch_init, w)" opts]
  by (auto simp add: touch_main_def Let_def)

lemma touch_main_warning_no_syscalls:
  assumes "stderr (snd (touch_main_options p (touch_init, w) opts)) \<noteq> stderr w"
  shows "syscalls (snd (touch_main p w opts argv)) = syscalls w"
proof -
  have "status_code (fst (touch_main_options p (touch_init, w) opts)) \<noteq> 0"
    using assms touch_main_options_outcome [of p "(touch_init, w)" opts] by auto
  then show ?thesis by (rule touch_main_no_syscalls)
qed

text \<open>
  C2, as the program has it. A failed parse (one that writes a warning) sets the failure
  status, and \<^verbatim>\<open>touch_main\<close> then changes no file. The fields of the pair are left as
  they were when \<^verbatim>\<open>touch_parse_frac\<close> fails (\<^verbatim>\<open>malloc\<close>, \<^verbatim>\<open>strtod\<close>) and when the
  length, the separator or \<^verbatim>\<open>strptime\<close> reject the input. When the parse fails after
  \<^verbatim>\<open>touch_parse_frac\<close> has succeeded (trailing characters, \<^verbatim>\<open>setenv\<close>), the seconds
  are left as they were; the nanoseconds are not covered by this statement. When
  \<^verbatim>\<open>mktime\<close> fails, both seconds fields are \<open>-1\<close> afterwards.
\<close>

theorem touch_parse_failure_effects:
  "(\<exists>ws. stderr (snd (touch_parse_date_time p (t, w) s)) = stderr w @ ws \<and>
     (ws \<noteq> [] \<longrightarrow> status_code (fst (touch_parse_date_time p (t, w) s)) = EXIT_FAILURE) \<and>
     (ws \<noteq> [] \<and> (True, ''mktime'') \<notin> set ws \<longrightarrow>
        tv_sec (fst (time_am (fst (touch_parse_date_time p (t, w) s)))) =
          tv_sec (fst (time_am t)) \<and>
        tv_sec (snd (time_am (fst (touch_parse_date_time p (t, w) s)))) =
          tv_sec (snd (time_am t))) \<and>
     ((True, ''mktime'') \<in> set ws \<longrightarrow>
        tv_sec (fst (time_am (fst (touch_parse_date_time p (t, w) s)))) = - 1 \<and>
        tv_sec (snd (time_am (fst (touch_parse_date_time p (t, w) s)))) = - 1) \<and>
     ((True, ''malloc: frac_str'') \<in> set ws \<or> (True, ''failed to parse frac'') \<in> set ws \<or>
      (False, ''invalid date_time'') \<in> set ws \<or> (True, ''failed to parse date_time'') \<in> set ws
        \<longrightarrow> time_am (fst (touch_parse_date_time p (t, w) s)) = time_am t)) \<and>
   (\<exists>ws. stderr (snd (touch_parse_time p (t, w) s)) = stderr w @ ws \<and>
     (ws \<noteq> [] \<longrightarrow> status_code (fst (touch_parse_time p (t, w) s)) = EXIT_FAILURE) \<and>
     (ws \<noteq> [] \<and> (True, ''mktime'') \<notin> set ws \<longrightarrow>
        time_am (fst (touch_parse_time p (t, w) s)) = time_am t) \<and>
     ((True, ''mktime'') \<in> set ws \<longrightarrow>
        tv_sec (fst (time_am (fst (touch_parse_time p (t, w) s)))) = - 1 \<and>
        tv_sec (snd (time_am (fst (touch_parse_time p (t, w) s)))) = - 1)) \<and>
   (stderr (snd (touch_main_options p (touch_init, w) opts)) \<noteq> stderr w \<longrightarrow>
      status_code (fst (touch_main p w opts argv)) \<noteq> 0 \<and>
      syscalls (snd (touch_main p w opts argv)) = syscalls w)"
proof -
  have m: "stderr (snd (touch_main_options p (touch_init, w) opts)) \<noteq> stderr w \<longrightarrow>
      status_code (fst (touch_main p w opts argv)) \<noteq> 0"
    using touch_main_options_outcome [of p "(touch_init, w)" opts]
    by (auto simp add: touch_main_def Let_def)
  obtain ws1 where 1: "stderr (snd (touch_parse_date_time p (t, w) s)) = stderr w @ ws1"
     "ws1 \<noteq> [] \<longrightarrow> status_code (fst (touch_parse_date_time p (t, w) s)) = EXIT_FAILURE"
     "ws1 \<noteq> [] \<and> (True, ''mktime'') \<notin> set ws1 \<longrightarrow>
        tv_sec (fst (time_am (fst (touch_parse_date_time p (t, w) s)))) =
          tv_sec (fst (time_am t)) \<and>
        tv_sec (snd (time_am (fst (touch_parse_date_time p (t, w) s)))) =
          tv_sec (snd (time_am t))"
     "(True, ''mktime'') \<in> set ws1 \<longrightarrow>
        tv_sec (fst (time_am (fst (touch_parse_date_time p (t, w) s)))) = - 1 \<and>
        tv_sec (snd (time_am (fst (touch_parse_date_time p (t, w) s)))) = - 1"
     "(True, ''malloc: frac_str'') \<in> set ws1 \<or> (True, ''failed to parse frac'') \<in> set ws1 \<or>
      (False, ''invalid date_time'') \<in> set ws1 \<or>
      (True, ''failed to parse date_time'') \<in> set ws1
        \<longrightarrow> time_am (fst (touch_parse_date_time p (t, w) s)) = time_am t"
    using touch_parse_date_time_outcome [of p t w s] by (elim exE conjE)
  obtain ws2 where 2: "stderr (snd (touch_parse_time p (t, w) s)) = stderr w @ ws2"
     "ws2 \<noteq> [] \<longrightarrow> status_code (fst (touch_parse_time p (t, w) s)) = EXIT_FAILURE"
     "ws2 \<noteq> [] \<and> (True, ''mktime'') \<notin> set ws2 \<longrightarrow>
        time_am (fst (touch_parse_time p (t, w) s)) = time_am t"
     "(True, ''mktime'') \<in> set ws2 \<longrightarrow>
        tv_sec (fst (time_am (fst (touch_parse_time p (t, w) s)))) = - 1 \<and>
        tv_sec (snd (time_am (fst (touch_parse_time p (t, w) s)))) = - 1"
    using touch_parse_time_outcome [of p t w s] by (elim exE conjE) simp
  show ?thesis
  proof (intro conjI)
    show "\<exists>ws. stderr (snd (touch_parse_date_time p (t, w) s)) = stderr w @ ws \<and>
     (ws \<noteq> [] \<longrightarrow> status_code (fst (touch_parse_date_time p (t, w) s)) = EXIT_FAILURE) \<and>
     (ws \<noteq> [] \<and> (True, ''mktime'') \<notin> set ws \<longrightarrow>
        tv_sec (fst (time_am (fst (touch_parse_date_time p (t, w) s)))) =
          tv_sec (fst (time_am t)) \<and>
        tv_sec (snd (time_am (fst (touch_parse_date_time p (t, w) s)))) =
          tv_sec (snd (time_am t))) \<and>
     ((True, ''mktime'') \<in> set ws \<longrightarrow>
        tv_sec (fst (time_am (fst (touch_parse_date_time p (t, w) s)))) = - 1 \<and>
        tv_sec (snd (time_am (fst (touch_parse_date_time p (t, w) s)))) = - 1) \<and>
     ((True, ''malloc: frac_str'') \<in> set ws \<or> (True, ''failed to parse frac'') \<in> set ws \<or>
      (False, ''invalid date_time'') \<in> set ws \<or> (True, ''failed to parse date_time'') \<in> set ws
        \<longrightarrow> time_am (fst (touch_parse_date_time p (t, w) s)) = time_am t)"
      by (rule exI [of _ ws1]) (intro conjI 1)
    show "\<exists>ws. stderr (snd (touch_parse_time p (t, w) s)) = stderr w @ ws \<and>
     (ws \<noteq> [] \<longrightarrow> status_code (fst (touch_parse_time p (t, w) s)) = EXIT_FAILURE) \<and>
     (ws \<noteq> [] \<and> (True, ''mktime'') \<notin> set ws \<longrightarrow>
        time_am (fst (touch_parse_time p (t, w) s)) = time_am t) \<and>
     ((True, ''mktime'') \<in> set ws \<longrightarrow>
        tv_sec (fst (time_am (fst (touch_parse_time p (t, w) s)))) = - 1 \<and>
        tv_sec (snd (time_am (fst (touch_parse_time p (t, w) s)))) = - 1)"
      by (rule exI [of _ ws2]) (intro conjI 2)
    show "stderr (snd (touch_main_options p (touch_init, w) opts)) \<noteq> stderr w \<longrightarrow>
      status_code (fst (touch_main p w opts argv)) \<noteq> 0 \<and>
      syscalls (snd (touch_main p w opts argv)) = syscalls w"
      using m touch_main_warning_no_syscalls [of p w opts argv] by (intro impI conjI) simp_all
  qed
qed

theorem touch_parse_failure_effects_witness:
  "stderr (snd (touch_parse_date_time host_utc (touch_init, world0) ''2007-11-12T10:15:3'')) =
     stderr world0 @ [(False, ''invalid date_time'')] \<and>
   status_code (fst (touch_parse_date_time host_utc (touch_init, world0)
                       ''2007-11-12T10:15:3'')) = EXIT_FAILURE \<and>
   time_am (fst (touch_parse_date_time host_utc (touch_init, world0) ''2007-11-12T10:15:3'')) =
     time_am touch_init \<and>
   stderr (snd (touch_parse_time host_utc (touch_init, world0) ''2007-11-12T10:15:3'')) =
     stderr world0 @ [(False, ''invalid time string'')] \<and>
   time_am (fst (touch_parse_time host_utc (touch_init, world0) ''2007-11-12T10:15:3'')) =
     time_am touch_init \<and>
   stderr (snd (touch_main_options host_utc (touch_init, world0)
                  [(CHR ''d'', ''2007-11-12T10:15:3'')])) \<noteq> stderr world0 \<and>
   syscalls (snd (touch_main host_utc world0 [(CHR ''d'', ''2007-11-12T10:15:3'')] [''f''])) =
     syscalls world0"
proof -
  let ?s = "''2007-11-12T10:15:3''"
  note th = touch_parse_failure_effects
              [of host_utc touch_init world0 ?s "[(CHR ''d'', ?s)]" "[''f'']"]
  have e1: "stderr (snd (touch_parse_date_time host_utc (touch_init, world0) ?s)) =
              stderr world0 @ [(False, ''invalid date_time'')]"
    by code_simp
  have e2: "stderr (snd (touch_parse_time host_utc (touch_init, world0) ?s)) =
              stderr world0 @ [(False, ''invalid time string'')]"
    by code_simp
  have e3: "stderr (snd (touch_main_options host_utc (touch_init, world0) [(CHR ''d'', ?s)])) \<noteq>
              stderr world0"
    by code_simp
  from th obtain ws1 where
      1: "stderr (snd (touch_parse_date_time host_utc (touch_init, world0) ?s)) =
            stderr world0 @ ws1"
     "ws1 \<noteq> [] \<longrightarrow>
        status_code (fst (touch_parse_date_time host_utc (touch_init, world0) ?s)) = EXIT_FAILURE"
     "(True, ''malloc: frac_str'') \<in> set ws1 \<or> (True, ''failed to parse frac'') \<in> set ws1 \<or>
      (False, ''invalid date_time'') \<in> set ws1 \<or>
      (True, ''failed to parse date_time'') \<in> set ws1
        \<longrightarrow> time_am (fst (touch_parse_date_time host_utc (touch_init, world0) ?s)) =
              time_am touch_init"
    by (elim exE conjE)
  from 1(1) e1 have w1: "ws1 = [(False, ''invalid date_time'')]" by simp
  from th obtain ws2 where
      2: "stderr (snd (touch_parse_time host_utc (touch_init, world0) ?s)) = stderr world0 @ ws2"
     "ws2 \<noteq> [] \<and> (True, ''mktime'') \<notin> set ws2 \<longrightarrow>
        time_am (fst (touch_parse_time host_utc (touch_init, world0) ?s)) = time_am touch_init"
    by (elim exE conjE)
  from 2(1) e2 have w2: "ws2 = [(False, ''invalid time string'')]" by simp
  from th e3 have c5: "syscalls (snd (touch_main host_utc world0 [(CHR ''d'', ?s)] [''f''])) =
     syscalls world0" by (elim conjE) simp
  from 1(2) w1 have c2: "status_code (fst (touch_parse_date_time host_utc (touch_init, world0) ?s))
     = EXIT_FAILURE" by simp
  from 1(3) w1 have c3: "time_am (fst (touch_parse_date_time host_utc (touch_init, world0) ?s)) =
     time_am touch_init" by simp
  from 2(2) w2 have c4: "time_am (fst (touch_parse_time host_utc (touch_init, world0) ?s)) =
     time_am touch_init" by simp
  from e1 c2 c3 e2 c4 e3 c5 show ?thesis by (intro conjI)
qed

text \<open>
  C2 as the claim has it fails. \<^verbatim>\<open>-d 2007-11-12T10:15:30,5X\<close> is rejected for the
  trailing \<^verbatim>\<open>X\<close>, after \<^verbatim>\<open>touch_parse_frac\<close> has stored 500000000 in the nanoseconds;
  and when \<^verbatim>\<open>mktime\<close> fails for \<^verbatim>\<open>-t 200711121015.30\<close>, the seconds are \<open>-1\<close>
  afterwards.
\<close>

theorem failed_parse_counterexample:
  "status_code (fst (touch_parse_date_time host_utc (touch_init, world0)
                       ''2007-11-12T10:15:30,5X'')) = EXIT_FAILURE \<and>
   tv_nsec (fst (time_am touch_init)) = 0 \<and>
   tv_nsec (fst (time_am (fst (touch_parse_date_time host_utc (touch_init, world0)
                                 ''2007-11-12T10:15:30,5X'')))) = 500000000 \<and>
   status_code (fst (touch_parse_time host_mktime_fails (touch_init, world0)
                       ''200711121015.30'')) = EXIT_FAILURE \<and>
   tv_sec (fst (time_am touch_init)) = 0 \<and>
   tv_sec (fst (time_am (fst (touch_parse_time host_mktime_fails (touch_init, world0)
                                ''200711121015.30'')))) = - 1"
  by code_simp

subsection \<open>Mutually exclusive sources\<close>

lemma touch_parse_frac_flags:
  "flags (fst (fst (touch_parse_frac p tw str tp))) = flags (fst tw)"
  using touch_parse_frac_cases [of p tw str tp] by auto

lemma touch_parse_date_time_flags:
  "flags (fst (touch_parse_date_time p tw s)) = flags (fst tw)"
proof -
  obtain t w where tw: "tw = (t, w)" by (cases tw)
  show ?thesis
  proof (cases "length s < 19 \<or> 20 + decimal_digits (LONG_MAX p) + 1 \<le> length s \<or>
           (s ! 10 \<noteq> CHR ''T'' \<and> s ! 10 \<noteq> CHR '' '')")
    case True
    show ?thesis
      by (simp add: tw touch_parse_date_time_rejected [OF True])
  next
    case False
    then have b: "19 \<le> length s" "length s < 20 + decimal_digits (LONG_MAX p) + 1"
      "s ! 10 = CHR ''T'' \<or> s ! 10 = CHR '' ''" by auto
    define wm where "wm = w\<lparr>MAX_FRAC_CHAR_LEN := decimal_digits (LONG_MAX p)\<rparr>"
    define fmt where "fmt = (''%Y-%m-%d %T'')[8 := s ! 10]"
    note acc = touch_parse_date_time_accepted [OF b fmt_def wm_def, of t]
    show ?thesis
    proof (cases "strptime s fmt (tm_zero\<lparr>tm_isdst := - 1\<rparr>)")
      case None
      then show ?thesis by (simp add: tw acc)
    next
      case (Some a)
      obtain rest tm' where a: "a = (rest, tm')" by (cases a)
      show ?thesis
        using touch_parse_frac_cases [of p "(t, wm)" s "length s - length rest"]
        by (auto simp add: tw acc Some a Let_def)
    qed
  qed
qed

lemma touch_parse_time_flags:
  "flags (fst (touch_parse_time p tw s)) = flags (fst tw)"
  by (auto simp add: touch_parse_time_def Let_def split: option.splits)

lemma touch_get_time_ref_file_flags:
  "flags (fst (touch_get_time_ref_file p tw path)) = flags (fst tw)"
  by (auto simp add: touch_get_time_ref_file_def split: option.splits)

lemma touch_main_option_flag_bits:
  "bit (flags (fst (touch_main_option p tw co))) 3 =
     (bit (flags (fst tw)) 3 \<or> fst co = CHR ''r'')"
  "bit (flags (fst (touch_main_option p tw co))) 4 =
     (bit (flags (fst tw)) 4 \<or> fst co = CHR ''t'')"
  "bit (flags (fst (touch_main_option p tw co))) 5 =
     (bit (flags (fst tw)) 5 \<or> fst co = CHR ''d'')"
  by (cases co;
      simp add: touch_main_option_def Let_def touch_parse_date_time_flags
        touch_parse_time_flags touch_get_time_ref_file_flags bit_or_iff
        TOUCH_FLAG_ACCESS_TIME_def TOUCH_FLAG_NO_CREATE_def TOUCH_FLAG_MOD_TIME_def
        TOUCH_FLAG_REF_FILE_def TOUCH_FLAG_TIME_def TOUCH_FLAG_DATE_TIME_def
        bit_push_bit_iff bit_1_iff)+

lemma touch_main_options_flag_bits:
  "bit (flags (fst (touch_main_options p tw opts))) 3 =
     (bit (flags (fst tw)) 3 \<or> CHR ''r'' \<in> fst ` set opts)"
  "bit (flags (fst (touch_main_options p tw opts))) 4 =
     (bit (flags (fst tw)) 4 \<or> CHR ''t'' \<in> fst ` set opts)"
  "bit (flags (fst (touch_main_options p tw opts))) 5 =
     (bit (flags (fst tw)) 5 \<or> CHR ''d'' \<in> fst ` set opts)"
  by (induction opts arbitrary: tw; auto simp add: touch_main_option_flag_bits)+

lemma not_exclusive:
  assumes "(bit (flags t) 3 \<and> bit (flags t) 4) \<or> (bit (flags t) 3 \<and> bit (flags t) 5) \<or>
           (bit (flags t) 4 \<and> bit (flags t) 5)"
  shows "touch_ensure_args_mutually_exclusive t = False"
proof -
  define x where "x = flags t AND (TOUCH_FLAG_REF_FILE OR TOUCH_FLAG_TIME OR TOUCH_FLAG_DATE_TIME)"
  have b: "bit x 3 = bit (flags t) 3" "bit x 4 = bit (flags t) 4" "bit x 5 = bit (flags t) 5"
    by (simp_all add: x_def bit_and_iff bit_or_iff TOUCH_FLAG_REF_FILE_def TOUCH_FLAG_TIME_def
          TOUCH_FLAG_DATE_TIME_def bit_push_bit_iff bit_1_iff)
  have n0: "x \<noteq> 0"
  proof
    assume "x = 0"
    then have "\<not> bit x 3" "\<not> bit x 4" "\<not> bit x 5" by simp_all
    with assms b show False by auto
  qed
  have n1: "x \<noteq> TOUCH_FLAG_REF_FILE"
    using assms b by (auto simp add: TOUCH_FLAG_REF_FILE_def bit_push_bit_iff bit_1_iff)
  have n2: "x \<noteq> TOUCH_FLAG_TIME"
    using assms b by (auto simp add: TOUCH_FLAG_TIME_def bit_push_bit_iff bit_1_iff)
  have n3: "x \<noteq> TOUCH_FLAG_DATE_TIME"
    using assms b by (auto simp add: TOUCH_FLAG_DATE_TIME_def bit_push_bit_iff bit_1_iff)
  show ?thesis
    using n0 n1 n2 n3 by (simp add: touch_ensure_args_mutually_exclusive_def x_def Let_def)
qed

text \<open>
  C4, as the program has it. When the options name more than one of the sources
  \<^verbatim>\<open>-r\<close>, \<^verbatim>\<open>-t\<close>, \<^verbatim>\<open>-d\<close>, \<^verbatim>\<open>touch_main\<close> fails and changes no file. The check
  comes after the option loop: the state it rejects is the one the resolvers of all the
  options have left, so their effects on the process (warnings, \<^verbatim>\<open>TZ\<close>) remain.
\<close>

theorem touch_main_mutually_exclusive:
  assumes "(CHR ''r'' \<in> fst ` set opts \<and> CHR ''t'' \<in> fst ` set opts) \<or>
           (CHR ''r'' \<in> fst ` set opts \<and> CHR ''d'' \<in> fst ` set opts) \<or>
           (CHR ''t'' \<in> fst ` set opts \<and> CHR ''d'' \<in> fst ` set opts)"
  shows "touch_main p w opts argv =
           touch_warn (touch_main_options p (touch_init, w) opts) False
             (if length argv < 1 then ''file... argument required''
              else ''-r, -t, and -d mutually exclusive'') \<and>
         status_code (fst (touch_main p w opts argv)) = EXIT_FAILURE \<and>
         syscalls (snd (touch_main p w opts argv)) = syscalls w"
proof -
  let ?tw = "touch_main_options p (touch_init, w) opts"
  have "(bit (flags (fst ?tw)) 3 \<and> bit (flags (fst ?tw)) 4) \<or>
        (bit (flags (fst ?tw)) 3 \<and> bit (flags (fst ?tw)) 5) \<or>
        (bit (flags (fst ?tw)) 4 \<and> bit (flags (fst ?tw)) 5)"
    unfolding touch_main_options_flag_bits using assms by blast
  then have ne: "touch_ensure_args_mutually_exclusive (fst ?tw) = False"
    by (rule not_exclusive)
  have eq: "touch_main p w opts argv =
           touch_warn ?tw False
             (if length argv < 1 then ''file... argument required''
              else ''-r, -t, and -d mutually exclusive'')"
    using ne by (simp add: touch_main_def Let_def)
  have sc: "syscalls (snd ?tw) = syscalls w"
    using touch_main_options_outcome [of p "(touch_init, w)" opts] by auto
  show ?thesis
    using eq sc by simp
qed

theorem touch_main_mutually_exclusive_witness:
  "CHR ''r'' \<in> fst ` set [(CHR ''r'', ''ref''), (CHR ''d'', ''2007-11-12T10:15:30Z'')] \<and>
   CHR ''d'' \<in> fst ` set [(CHR ''r'', ''ref''), (CHR ''d'', ''2007-11-12T10:15:30Z'')] \<and>
   touch_main host_ref world0 [(CHR ''r'', ''ref''), (CHR ''d'', ''2007-11-12T10:15:30Z'')]
       [''f''] =
     touch_warn
       (touch_main_options host_ref (touch_init, world0)
          [(CHR ''r'', ''ref''), (CHR ''d'', ''2007-11-12T10:15:30Z'')])
       False ''-r, -t, and -d mutually exclusive'' \<and>
   status_code (fst (touch_main host_ref world0
       [(CHR ''r'', ''ref''), (CHR ''d'', ''2007-11-12T10:15:30Z'')] [''f''])) = EXIT_FAILURE \<and>
   syscalls (snd (touch_main host_ref world0
       [(CHR ''r'', ''ref''), (CHR ''d'', ''2007-11-12T10:15:30Z'')] [''f''])) = syscalls world0"
proof -
  let ?opts = "[(CHR ''r'', ''ref''), (CHR ''d'', ''2007-11-12T10:15:30Z'')]"
  have h1: "CHR ''r'' \<in> fst ` set ?opts" and h2: "CHR ''d'' \<in> fst ` set ?opts"
    by simp_all
  then have h: "(CHR ''r'' \<in> fst ` set ?opts \<and> CHR ''t'' \<in> fst ` set ?opts) \<or>
           (CHR ''r'' \<in> fst ` set ?opts \<and> CHR ''d'' \<in> fst ` set ?opts) \<or>
           (CHR ''t'' \<in> fst ` set ?opts \<and> CHR ''d'' \<in> fst ` set ?opts)"
    by blast
  have l: "\<not> length [''f''] < 1" by simp
  note th = touch_main_mutually_exclusive [OF h, of host_ref world0 "[''f'']",
      unfolded if_not_P [OF l]]
  from th h1 h2 show ?thesis by blast
qed

text \<open>
  C4 as the claim has it fails: on \<^verbatim>\<open>touch -r ref -d 2007-11-12T10:15:30Z f\<close> both
  resolvers have run when the invocation is rejected. The pair holds the nanoseconds of
  the reference file and the seconds of the date, and \<^verbatim>\<open>TZ\<close> has been set.
\<close>

theorem mutually_exclusive_counterexample:
  "env_TZ world0 = None \<and>
   touch_main host_ref world0 [(CHR ''r'', ''ref''), (CHR ''d'', ''2007-11-12T10:15:30Z'')]
       [''f''] =
     (\<lparr>flags = TOUCH_FLAG_REF_FILE OR TOUCH_FLAG_DATE_TIME, status_code = EXIT_FAILURE,
       time_am = (\<lparr>tv_sec = 1194862530, tv_nsec = 5\<rparr>, \<lparr>tv_sec = 1194862530, tv_nsec = 7\<rparr>)\<rparr>,
      \<lparr>env_TZ = Some ''UTC'', stderr = [(False, ''-r, -t, and -d mutually exclusive'')],
       MAX_FRAC_CHAR_LEN = 19, syscalls = []\<rparr>)"
  by code_simp

subsection \<open>The fields of a numeric time\<close>

lemma digit_char:
  assumes "k < 10"
  shows "isdigit (char_of (48 + k))" "\<not> isspace (char_of (48 + k))"
    "digit_val (char_of (48 + k)) = int k" "char_of (48 + k) \<noteq> CHR ''.''"
proof -
  have o: "(of_char (char_of (48 + k) :: char) :: nat) = 48 + k"
    using assms by simp
  show "isdigit (char_of (48 + k))"
    using assms by (simp add: isdigit_def o)
  show "digit_val (char_of (48 + k)) = int k"
    using assms by (simp add: digit_val_def)
  have "(of_char (char_of (48 + k) :: char) :: nat) \<noteq> of_char CHR '' ''"
    unfolding o by simp
  then have "char_of (48 + k) \<noteq> CHR '' ''" by metis
  then show "\<not> isspace (char_of (48 + k))"
    using assms by (simp add: isspace_def)
  have "(of_char (char_of (48 + k) :: char) :: nat) \<noteq> of_char CHR ''.''"
    unfolding o by simp
  then show "char_of (48 + k) \<noteq> CHR ''.''" by metis
qed

lemma get_number_dd:
  assumes "v < 100" and "lo \<le> int v" and "int v \<le> hi"
  shows "get_number lo hi 2 (dd v @ rest) = Some (int v, rest)"
proof -
  have k: "v div 10 < 10" "v mod 10 < 10" using assms(1) by auto
  have v: "int (v div 10) * 10 + int (v mod 10) = int v"
    by (metis mult.commute of_nat_add of_nat_mult of_nat_numeral div_mult_mod_eq)
  have le: "int (v div 10) * 10 \<le> hi"
    using v assms(3) by linarith
  have n21: "((2::nat) - 1 > 0) = True" "((1::nat) - 1 > 0) = False" by simp_all
  have gd: "get_digits 2 hi 0 (dd v @ rest) = (int v, rest)"
    unfolding dd_def append.simps get_digits.simps Let_def
    by (simp add: digit_char [OF k(1)] digit_char [OF k(2)] le v n21 del: One_nat_def)
  have dw: "dropWhile isspace (dd v @ rest) = dd v @ rest"
    by (simp add: dd_def digit_char [OF k(1)])
  have hd: "isdigit (hd (dd v @ rest))" "(dd v @ rest = []) = False"
    by (simp_all add: dd_def digit_char [OF k(1)])
  show ?thesis
    unfolding get_number_def Let_def dw hd gd
    using assms(2,3) hd(1) by simp
qed

lemma get_number_dd_end:
  assumes "v < 100" and "lo \<le> int v" and "int v \<le> hi"
  shows "get_number lo hi 2 (dd v) = Some (int v, [])"
  using get_number_dd [OF assms, of "[]"] by simp

lemma strptime_YYMMDDhhmm:
  assumes "YY \<le> 99" and "1 \<le> MM" and "MM \<le> 12" and "1 \<le> DD" and "DD \<le> 31"
      and "hh \<le> 23" and "mi \<le> 59"
  shows "strptime (dd YY @ dd MM @ dd DD @ dd hh @ dd mi) ''%y%m%d%H%M'' tm_zero =
           Some ([], \<lparr>tm_sec = 0, tm_min = int mi, tm_hour = int hh, tm_mday = int DD,
                       tm_mon = int MM - 1,
                       tm_year = (if 69 \<le> YY then int YY else int YY + 100),
                       tm_isdst = 0\<rparr>)"
  using assms
  by (simp add: strptime_def strptime_conv_def isspace_def get_number_dd get_number_dd_end
        tm_zero_def)

lemma strptime_YYMMDDhhmm_SS:
  assumes "YY \<le> 99" and "1 \<le> MM" and "MM \<le> 12" and "1 \<le> DD" and "DD \<le> 31"
      and "hh \<le> 23" and "mi \<le> 59" and "SS \<le> 61"
  shows "strptime (dd YY @ dd MM @ dd DD @ dd hh @ dd mi @ ''.'' @ dd SS) ''%y%m%d%H%M.%S''
           tm_zero =
           Some ([], \<lparr>tm_sec = int SS, tm_min = int mi, tm_hour = int hh, tm_mday = int DD,
                       tm_mon = int MM - 1,
                       tm_year = (if 69 \<le> YY then int YY else int YY + 100),
                       tm_isdst = 0\<rparr>)"
  using assms
  by (simp add: strptime_def strptime_conv_def isspace_def get_number_dd get_number_dd_end
        tm_zero_def match_char_def)

lemma strptime_CCYYMMDDhhmm:
  assumes "CC \<le> 99" and "YY \<le> 99" and "1 \<le> MM" and "MM \<le> 12" and "1 \<le> DD"
      and "DD \<le> 31" and "hh \<le> 23" and "mi \<le> 59"
  shows "strptime (dd CC @ dd YY @ dd MM @ dd DD @ dd hh @ dd mi) ''%C%y%m%d%H%M'' tm_zero =
           Some ([], \<lparr>tm_sec = 0, tm_min = int mi, tm_hour = int hh, tm_mday = int DD,
                       tm_mon = int MM - 1,
                       tm_year = int CC * 100 + int YY - 1900,
                       tm_isdst = 0\<rparr>)"
  using assms
  by (simp add: strptime_def strptime_conv_def isspace_def get_number_dd get_number_dd_end
        tm_zero_def)

lemma strptime_CCYYMMDDhhmm_SS:
  assumes "CC \<le> 99" and "YY \<le> 99" and "1 \<le> MM" and "MM \<le> 12" and "1 \<le> DD"
      and "DD \<le> 31" and "hh \<le> 23" and "mi \<le> 59" and "SS \<le> 61"
  shows "strptime (dd CC @ dd YY @ dd MM @ dd DD @ dd hh @ dd mi @ ''.'' @ dd SS)
           ''%C%y%m%d%H%M.%S'' tm_zero =
           Some ([], \<lparr>tm_sec = int SS, tm_min = int mi, tm_hour = int hh, tm_mday = int DD,
                       tm_mon = int MM - 1,
                       tm_year = int CC * 100 + int YY - 1900,
                       tm_isdst = 0\<rparr>)"
  using assms
  by (simp add: strptime_def strptime_conv_def isspace_def get_number_dd get_number_dd_end
        tm_zero_def match_char_def)

lemma length_dd [simp]: "length (dd v) = 2"
  by (simp add: dd_def)

lemma point_notin_dd [simp]:
  assumes "v < 100"
  shows "CHR ''.'' \<notin> set (dd v)"
proof -
  have "v div 10 < 10" "v mod 10 < 10" using assms by auto
  then have "char_of (48 + v div 10) \<noteq> CHR ''.''" "char_of (48 + v mod 10) \<noteq> CHR ''.''"
    by (simp_all add: digit_char(4))
  then show ?thesis
    by (auto simp add: dd_def)
qed

text \<open>What \<^verbatim>\<open>touch_parse_time\<close> does with a string that \<^verbatim>\<open>strptime\<close> reads to its end.\<close>

lemma touch_parse_time_resolved:
  assumes "8 \<le> length s" and "length s \<le> 15"
      and "strptime s
             (touch_parse_time_fmt (if CHR ''.'' \<in> set s then length s - 3 else length s)
                (CHR ''.'' \<in> set s)) tm_zero = Some ([], tm')"
  shows "tv_sec (fst (time_am (fst (touch_parse_time p (t, w) s)))) = mktime p (env_TZ w) tm' \<and>
         tv_sec (snd (time_am (fst (touch_parse_time p (t, w) s)))) = mktime p (env_TZ w) tm'"
  using assms by (simp add: touch_parse_time_def Let_def)

text \<open>
  C8. Take any two-digit fields in range: a year \<open>YY\<close>, a month, a day, an hour and a
  minute, optionally seconds \<open>SS\<close>, optionally a century \<open>CC\<close>. For the time written
  \<^verbatim>\<open>YYMMDDhhmm\<close> or \<^verbatim>\<open>YYMMDDhhmm.SS\<close>, \<^verbatim>\<open>touch_parse_time\<close> resolves (with
  \<^verbatim>\<open>mktime\<close>) a broken-down time whose year is \<open>1900 + YY\<close> when \<open>YY\<close> is 69 or
  more and \<open>2000 + YY\<close> otherwise; for \<^verbatim>\<open>CCYYMMDDhhmm\<close> or \<^verbatim>\<open>CCYYMMDDhhmm.SS\<close> the
  year is \<open>CC * 100 + YY\<close>. (\<open>tm_year\<close> counts from 1900.) The other fields are the
  digits as written, the month counted from 0.
\<close>

theorem touch_parse_time_year:
  assumes "YY \<le> 99" and "1 \<le> MM" and "MM \<le> 12" and "1 \<le> DD" and "DD \<le> 31"
      and "hh \<le> 23" and "mi \<le> 59" and "CC \<le> 99" and "SS \<le> 61"
  shows
   "tv_sec (fst (time_am (fst (touch_parse_time p (t, w)
        (dd YY @ dd MM @ dd DD @ dd hh @ dd mi))))) =
      mktime p (env_TZ w)
        \<lparr>tm_sec = 0, tm_min = int mi, tm_hour = int hh, tm_mday = int DD, tm_mon = int MM - 1,
         tm_year = (if 69 \<le> YY then 1900 + int YY else 2000 + int YY) - 1900,
         tm_isdst = 0\<rparr> \<and>
    tv_sec (fst (time_am (fst (touch_parse_time p (t, w)
        (dd YY @ dd MM @ dd DD @ dd hh @ dd mi @ ''.'' @ dd SS))))) =
      mktime p (env_TZ w)
        \<lparr>tm_sec = int SS, tm_min = int mi, tm_hour = int hh, tm_mday = int DD,
         tm_mon = int MM - 1,
         tm_year = (if 69 \<le> YY then 1900 + int YY else 2000 + int YY) - 1900,
         tm_isdst = 0\<rparr> \<and>
    tv_sec (fst (time_am (fst (touch_parse_time p (t, w)
        (dd CC @ dd YY @ dd MM @ dd DD @ dd hh @ dd mi))))) =
      mktime p (env_TZ w)
        \<lparr>tm_sec = 0, tm_min = int mi, tm_hour = int hh, tm_mday = int DD, tm_mon = int MM - 1,
         tm_year = int CC * 100 + int YY - 1900, tm_isdst = 0\<rparr> \<and>
    tv_sec (fst (time_am (fst (touch_parse_time p (t, w)
        (dd CC @ dd YY @ dd MM @ dd DD @ dd hh @ dd mi @ ''.'' @ dd SS))))) =
      mktime p (env_TZ w)
        \<lparr>tm_sec = int SS, tm_min = int mi, tm_hour = int hh, tm_mday = int DD,
         tm_mon = int MM - 1,
         tm_year = int CC * 100 + int YY - 1900, tm_isdst = 0\<rparr>"
proof -
  have lt: "YY < 100" "MM < 100" "DD < 100" "hh < 100" "mi < 100" "CC < 100" "SS < 100"
    using assms by auto
  have y: "(if 69 \<le> YY then 1900 + int YY else 2000 + int YY) - 1900 =
           (if 69 \<le> YY then int YY else int YY + 100)"
    by simp
  let ?s1 = "dd YY @ dd MM @ dd DD @ dd hh @ dd mi"
  let ?s2 = "dd YY @ dd MM @ dd DD @ dd hh @ dd mi @ ''.'' @ dd SS"
  let ?s3 = "dd CC @ dd YY @ dd MM @ dd DD @ dd hh @ dd mi"
  let ?s4 = "dd CC @ dd YY @ dd MM @ dd DD @ dd hh @ dd mi @ ''.'' @ dd SS"
  have f1: "touch_parse_time_fmt (if CHR ''.'' \<in> set ?s1 then length ?s1 - 3 else length ?s1)
              (CHR ''.'' \<in> set ?s1) = ''%y%m%d%H%M''"
    using lt by (simp add: touch_parse_time_fmt_def)
  have f2: "touch_parse_time_fmt (if CHR ''.'' \<in> set ?s2 then length ?s2 - 3 else length ?s2)
              (CHR ''.'' \<in> set ?s2) = ''%y%m%d%H%M.%S''"
    using lt by (simp add: touch_parse_time_fmt_def)
  have f3: "touch_parse_time_fmt (if CHR ''.'' \<in> set ?s3 then length ?s3 - 3 else length ?s3)
              (CHR ''.'' \<in> set ?s3) = ''%C%y%m%d%H%M''"
    using lt by (simp add: touch_parse_time_fmt_def)
  have f4: "touch_parse_time_fmt (if CHR ''.'' \<in> set ?s4 then length ?s4 - 3 else length ?s4)
              (CHR ''.'' \<in> set ?s4) = ''%C%y%m%d%H%M.%S''"
    using lt by (simp add: touch_parse_time_fmt_def)
  have l: "8 \<le> length ?s1" "length ?s1 \<le> 15" "8 \<le> length ?s2" "length ?s2 \<le> 15"
    "8 \<le> length ?s3" "length ?s3 \<le> 15" "8 \<le> length ?s4" "length ?s4 \<le> 15"
    by simp_all
  note r1 = touch_parse_time_resolved [OF l(1,2), unfolded f1,
      OF strptime_YYMMDDhhmm [OF assms(1-7)], of p t w, THEN conjunct1]
  note r2 = touch_parse_time_resolved [OF l(3,4), unfolded f2,
      OF strptime_YYMMDDhhmm_SS [OF assms(1-7) assms(9)], of p t w, THEN conjunct1]
  note r3 = touch_parse_time_resolved [OF l(5,6), unfolded f3,
      OF strptime_CCYYMMDDhhmm [OF assms(8) assms(1-7)], of p t w, THEN conjunct1]
  note r4 = touch_parse_time_resolved [OF l(7,8), unfolded f4,
      OF strptime_CCYYMMDDhhmm_SS [OF assms(8) assms(1-7) assms(9)], of p t w, THEN conjunct1]
  show ?thesis
    unfolding y using r1 r2 r3 r4 by (intro conjI)
qed

theorem touch_parse_time_year_witness:
  "(68::nat) \<le> 99 \<and> (1::nat) \<le> 11 \<and> (11::nat) \<le> 12 \<and> (1::nat) \<le> 12 \<and> (12::nat) \<le> 31 \<and>
   (10::nat) \<le> 23 \<and> (15::nat) \<le> 59 \<and> (20::nat) \<le> 99 \<and> (30::nat) \<le> 61 \<and>
   tv_sec (fst (time_am (fst (touch_parse_time host_utc (touch_init, world0)
        (dd 68 @ dd 11 @ dd 12 @ dd 10 @ dd 15))))) =
      mktime host_utc (env_TZ world0)
        \<lparr>tm_sec = 0, tm_min = int 15, tm_hour = int 10, tm_mday = int 12, tm_mon = int 11 - 1,
         tm_year = (if 69 \<le> (68::nat) then 1900 + int 68 else 2000 + int 68) - 1900,
         tm_isdst = 0\<rparr> \<and>
   tv_sec (fst (time_am (fst (touch_parse_time host_utc (touch_init, world0)
        (dd 20 @ dd 68 @ dd 11 @ dd 12 @ dd 10 @ dd 15 @ ''.'' @ dd 30))))) =
      mktime host_utc (env_TZ world0)
        \<lparr>tm_sec = int 30, tm_min = int 15, tm_hour = int 10, tm_mday = int 12,
         tm_mon = int 11 - 1,
         tm_year = int 20 * 100 + int 68 - 1900, tm_isdst = 0\<rparr> \<and>
   dd 68 @ dd 11 @ dd 12 @ dd 10 @ dd 15 = ''6811121015'' \<and>
   tv_sec (fst (time_am (fst (touch_parse_time host_utc (touch_init, world0)
                                ''6811121015'')))) = 3119940900 \<and>
   tv_sec (fst (time_am (fst (touch_parse_time host_utc (touch_init, world0)
                                ''6911121015'')))) = - 4283100"
proof -
  have h: "(68::nat) \<le> 99" "(1::nat) \<le> 11" "(11::nat) \<le> 12" "(1::nat) \<le> 12"
    "(12::nat) \<le> 31" "(10::nat) \<le> 23" "(15::nat) \<le> 59" "(20::nat) \<le> 99" "(30::nat) \<le> 61"
    by simp_all
  note th = touch_parse_time_year [OF h, of host_utc touch_init world0]
  have s: "dd 68 @ dd 11 @ dd 12 @ dd 10 @ dd 15 = ''6811121015''"
    by code_simp
  have v1: "tv_sec (fst (time_am (fst (touch_parse_time host_utc (touch_init, world0)
                                ''6811121015'')))) = 3119940900"
    by code_simp
  have v2: "tv_sec (fst (time_am (fst (touch_parse_time host_utc (touch_init, world0)
                                ''6911121015'')))) = - 4283100"
    by code_simp
  from th h s v1 v2 show ?thesis by blast
qed

subsection \<open>Length and layout of a numeric time\<close>

text \<open>
  How much a numeric conversion reads: where the input does not start with white space,
  at most two characters, and what is left is the rest of the input.
\<close>

lemma get_digits_consumes:
  "get_digits n hi val rp = (v, rp') \<Longrightarrow> rp \<noteq> [] \<Longrightarrow>
   \<exists>pre. rp = pre @ rp' \<and> length pre \<le> max n 1"
proof (induction n hi val rp arbitrary: v rp' rule: get_digits.induct)
  case (1 n hi val)
  then show ?case by simp
next
  case (2 n hi val c rp)
  let ?val = "val * 10 + digit_val c"
  show ?case
  proof (cases "n - 1 > 0 \<and> ?val * 10 \<le> hi \<and> rp \<noteq> [] \<and> isdigit (hd rp)")
    case True
    then have g: "get_digits (n - 1) hi ?val rp = (v, rp')"
      using "2.prems"(1) by (simp add: Let_def)
    have ne: "rp \<noteq> []" using True by simp
    from "2.IH" [OF refl True g ne]
    obtain pre where pre: "rp = pre @ rp'" "length pre \<le> max (n - 1) 1" by blast
    have "max (n - 1) 1 + 1 \<le> max n 1" using True by (auto simp add: max_def)
    with pre have "c # rp = (c # pre) @ rp' \<and> length (c # pre) \<le> max n 1" by simp
    then show ?thesis by blast
  next
    case False
    then have "rp' = rp" using "2.prems"(1) by (auto simp add: Let_def)
    then have "c # rp = [c] @ rp' \<and> length [c] \<le> max n 1" by simp
    then show ?thesis by blast
  qed
qed

lemma digit_not_space: "isdigit c \<Longrightarrow> \<not> isspace c"
  by (auto simp add: isdigit_def isspace_def)

lemma get_number_consumes:
  assumes "get_number lo hi 2 rp = Some (v, rp')" and "\<forall>c \<in> set rp. \<not> isspace c"
  shows "\<exists>pre. rp = pre @ rp' \<and> length pre \<le> 2"
proof -
  have dw: "dropWhile isspace rp = rp"
    using assms(2) by (cases rp) simp_all
  have ne: "rp \<noteq> []"
    using assms(1) unfolding get_number_def Let_def dw by (auto split: if_splits)
  obtain v' where "get_digits 2 hi 0 rp = (v', rp')"
    using assms(1) unfolding get_number_def Let_def dw
    by (cases "get_digits 2 hi 0 rp") (auto split: if_splits)
  from get_digits_consumes [OF this ne]
  obtain pre where "rp = pre @ rp'" "length pre \<le> max 2 1" by blast
  then have "rp = pre @ rp' \<and> length pre \<le> 2" by simp
  then show ?thesis by blast
qed

lemma strptime_conv_consumes:
  assumes "strptime_conv c rp ts = Some (rp', ts')"
      and "c \<in> {CHR ''C'', CHR ''d'', CHR ''H'', CHR ''m'', CHR ''M'', CHR ''S'', CHR ''y''}"
      and "\<forall>c \<in> set rp. \<not> isspace c"
  shows "\<exists>pre. rp = pre @ rp' \<and> length pre \<le> 2"
proof -
  obtain tm s where ts: "ts = (tm, s)" by (cases ts)
  have "\<exists>lo hi v. get_number lo hi 2 rp = Some (v, rp')"
  proof -
    consider "c = CHR ''C''" | "c = CHR ''d''" | "c = CHR ''H''" | "c = CHR ''m''"
      | "c = CHR ''M''" | "c = CHR ''S''" | "c = CHR ''y''"
      using assms(2) by blast
    then show ?thesis
    proof cases
      case 1
      with assms(1) show ?thesis
        unfolding ts strptime_conv_def by (auto split: option.splits)
    next
      case 2
      with assms(1) show ?thesis
        unfolding ts strptime_conv_def by (auto split: option.splits)
    next
      case 3
      with assms(1) show ?thesis
        unfolding ts strptime_conv_def by (auto split: option.splits)
    next
      case 4
      with assms(1) show ?thesis
        unfolding ts strptime_conv_def by (auto split: option.splits)
    next
      case 5
      with assms(1) show ?thesis
        unfolding ts strptime_conv_def by (auto split: option.splits)
    next
      case 6
      with assms(1) show ?thesis
        unfolding ts strptime_conv_def by (auto split: option.splits)
    next
      case 7
      with assms(1) show ?thesis
        unfolding ts strptime_conv_def by (auto split: option.splits)
    qed
  qed
  then obtain lo hi v where "get_number lo hi 2 rp = Some (v, rp')" by blast
  from get_number_consumes [OF this assms(3)] show ?thesis .
qed

lemma strptime_internal_percent:
  "strptime_internal rp (CHR ''%'' # c # fmt) ts =
     (case strptime_conv c rp ts of None \<Rightarrow> None
      | Some (rp1, ts1) \<Rightarrow> strptime_internal rp1 fmt ts1)"
proof -
  have sp: "\<not> isspace (CHR ''%'')" by (simp add: isspace_def)
  show ?thesis
    by (simp add: sp)
qed

text \<open>
  A format that starts with \<open>length cs\<close> two-digit conversions reads at most twice as
  many characters before it goes on with the rest of the format.
\<close>

lemma strptime_internal_consumes:
  assumes "strptime_internal rp (concat (map (\<lambda>c. [CHR ''%'', c]) cs) @ f2) ts = Some r"
      and "set cs \<subseteq> {CHR ''C'', CHR ''d'', CHR ''H'', CHR ''m'', CHR ''M'', CHR ''S'', CHR ''y''}"
      and "\<forall>c \<in> set rp. \<not> isspace c"
  shows "\<exists>pre rp' ts'. rp = pre @ rp' \<and> length pre \<le> 2 * length cs \<and>
           strptime_internal rp' f2 ts' = Some r"
  using assms
proof (induction cs arbitrary: rp ts)
  case Nil
  then have "rp = [] @ rp \<and> length ([]::string) \<le> 2 * length ([]::string) \<and>
             strptime_internal rp f2 ts = Some r" by simp
  then show ?case by blast
next
  case (Cons c cs)
  let ?fmt = "concat (map (\<lambda>c. [CHR ''%'', c]) cs) @ f2"
  have e: "concat (map (\<lambda>c. [CHR ''%'', c]) (c # cs)) @ f2 = CHR ''%'' # c # ?fmt"
    by simp
  from Cons.prems(1) obtain rp1 ts1 where
      c1: "strptime_conv c rp ts = Some (rp1, ts1)" and
      r1: "strptime_internal rp1 ?fmt ts1 = Some r"
    unfolding e strptime_internal_percent by (auto split: option.splits)
  have cin: "c \<in> {CHR ''C'', CHR ''d'', CHR ''H'', CHR ''m'', CHR ''M'', CHR ''S'', CHR ''y''}"
    using Cons.prems(2) by simp
  have sub: "set cs \<subseteq> {CHR ''C'', CHR ''d'', CHR ''H'', CHR ''m'', CHR ''M'', CHR ''S'', CHR ''y''}"
    using Cons.prems(2) by simp
  from strptime_conv_consumes [OF c1 cin Cons.prems(3)]
  obtain pre1 where p1: "rp = pre1 @ rp1" "length pre1 \<le> 2" by blast
  have d1: "\<forall>c \<in> set rp1. \<not> isspace c"
    using Cons.prems(3) p1(1) by simp
  from Cons.IH [OF r1 sub d1]
  obtain pre2 rp' ts' where p2: "rp1 = pre2 @ rp'" "length pre2 \<le> 2 * length cs"
      "strptime_internal rp' f2 ts' = Some r" by blast
  have "rp = (pre1 @ pre2) @ rp' \<and> length (pre1 @ pre2) \<le> 2 * length (c # cs) \<and>
        strptime_internal rp' f2 ts' = Some r"
    using p1 p2 by simp
  then show ?case by blast
qed

lemma touch_parse_time_fmt_short:
  "n < 10 \<Longrightarrow>
   touch_parse_time_fmt n sec =
     concat (map (\<lambda>c. [CHR ''%'', c]) ''mdHM'') @ (if sec then ''.%S'' else [])"
  by (simp add: touch_parse_time_fmt_def)

lemma touch_parse_time_fmt_year:
  "10 \<le> n \<Longrightarrow> n \<noteq> 12 \<Longrightarrow>
   touch_parse_time_fmt n sec =
     concat (map (\<lambda>c. [CHR ''%'', c]) ''ymdHM'') @ (if sec then ''.%S'' else [])"
  by (simp add: touch_parse_time_fmt_def)

lemma touch_parse_time_fmt_century:
  "touch_parse_time_fmt 12 sec =
     concat (map (\<lambda>c. [CHR ''%'', c]) ''CymdHM'') @ (if sec then ''.%S'' else [])"
  by (simp add: touch_parse_time_fmt_def)

text \<open>Conversions alone cannot read an input of more than two characters each to its end.\<close>

lemma strptime_leaves_rest:
  assumes "strptime s (concat (map (\<lambda>c. [CHR ''%'', c]) cs) @ []) tm = Some (rest, tm')"
      and "set cs \<subseteq> {CHR ''C'', CHR ''d'', CHR ''H'', CHR ''m'', CHR ''M'', CHR ''S'', CHR ''y''}"
      and "\<forall>c \<in> set s. \<not> isspace c"
      and "2 * length cs < length s"
  shows "rest \<noteq> []"
proof -
  let ?ts = "(tm, \<lparr>century = - 1, want_century = False\<rparr>)"
  from assms(1) obtain tm1 st where
    i: "strptime_internal s (concat (map (\<lambda>c. [CHR ''%'', c]) cs) @ []) ?ts =
          Some (rest, tm1, st)"
    unfolding strptime_def by (auto split: option.splits)
  from strptime_internal_consumes [OF i assms(2) assms(3)]
  obtain pre rp' ts' where p: "s = pre @ rp'" "length pre \<le> 2 * length cs"
      "strptime_internal rp' [] ts' = Some (rest, tm1, st)" by blast
  from p(3) have "rp' = rest" by simp
  with p(1) p(2) assms(4) show ?thesis by auto
qed

text \<open>Where the format goes on with a point and the input with a digit, the parse fails.\<close>

lemma strptime_point_fails:
  assumes "\<forall>c \<in> set ds. isdigit c" and "\<forall>c \<in> set ss. isdigit c"
      and "set cs \<subseteq> {CHR ''C'', CHR ''d'', CHR ''H'', CHR ''m'', CHR ''M'', CHR ''S'', CHR ''y''}"
      and "2 * length cs < length ds"
  shows "strptime (ds @ CHR ''.'' # ss) (concat (map (\<lambda>c. [CHR ''%'', c]) cs) @ ''.%S'') tm = None"
proof (rule ccontr)
  let ?ts = "(tm, \<lparr>century = - 1, want_century = False\<rparr>)"
  let ?s = "ds @ CHR ''.'' # ss"
  assume "strptime ?s (concat (map (\<lambda>c. [CHR ''%'', c]) cs) @ ''.%S'') tm \<noteq> None"
  then obtain r where
    i: "strptime_internal ?s (concat (map (\<lambda>c. [CHR ''%'', c]) cs) @ ''.%S'') ?ts = Some r"
    unfolding strptime_def by (auto split: option.splits)
  have sp: "\<not> isspace (CHR ''.'')" by (simp add: isspace_def)
  have ns: "\<forall>c \<in> set ?s. \<not> isspace c"
    using assms(1) assms(2) sp by (auto simp add: digit_not_space)
  from strptime_internal_consumes [OF i assms(3) ns]
  obtain pre rp' ts' where p: "?s = pre @ rp'" "length pre \<le> 2 * length cs"
      "strptime_internal rp' ''.%S'' ts' = Some r" by blast
  have lt: "length pre < length ds" using p(2) assms(4) by simp
  have "rp' = drop (length pre) (pre @ rp')" by simp
  also have "\<dots> = drop (length pre) ds @ CHR ''.'' # ss"
    using lt by (simp add: p(1) [symmetric])
  also have "\<dots> = (ds ! length pre) # drop (Suc (length pre)) ds @ CHR ''.'' # ss"
    using lt by (simp add: Cons_nth_drop_Suc)
  finally have rp: "rp' = (ds ! length pre) # drop (Suc (length pre)) ds @ CHR ''.'' # ss" .
  have "isdigit (ds ! length pre)" using assms(1) lt by simp
  then have ne: "ds ! length pre \<noteq> CHR ''.''" using isdigit_point by auto
  have sp: "\<not> isspace (CHR ''.'')" by (simp add: isspace_def)
  from p(3) ne show False
    unfolding rp by (simp add: sp match_char_def)
qed

text \<open>What \<^verbatim>\<open>touch_parse_time\<close> does by the result of \<^verbatim>\<open>strptime\<close>.\<close>

lemma touch_parse_time_by_strptime:
  assumes "8 \<le> length s" and "length s \<le> 15"
  shows "touch_parse_time p (t, w) s =
     (case strptime s (touch_parse_time_fmt
                         (if CHR ''.'' \<in> set s then length s - 3 else length s)
                         (CHR ''.'' \<in> set s)) tm_zero of
        None \<Rightarrow> (t\<lparr>status_code := EXIT_FAILURE\<rparr>,
                 w\<lparr>stderr := stderr w @ [(True, ''invalid time string'')]\<rparr>)
      | Some (rest, tm') \<Rightarrow>
          if rest \<noteq> []
          then (t\<lparr>status_code := EXIT_FAILURE\<rparr>,
                w\<lparr>stderr := stderr w @ [(True, ''invalid time string'')]\<rparr>)
          else if mktime p (env_TZ w) tm' = - 1
          then (set_tv_sec (t\<lparr>status_code := EXIT_FAILURE\<rparr>) (- 1),
                w\<lparr>stderr := stderr w @ [(True, ''mktime'')]\<rparr>)
          else (set_tv_sec t (mktime p (env_TZ w) tm'), w))"
  using assms
  by (simp add: touch_parse_time_def Let_def touch_warn_def split: option.splits)

lemma touch_parse_time_digits_rejected:
  assumes "\<forall>c \<in> set s. isdigit c" and "8 \<le> length s" and "length s \<le> 15"
      and "length s \<noteq> 8" and "length s \<noteq> 10" and "length s \<noteq> 12"
  shows "touch_parse_time p (t, w) s =
           (t\<lparr>status_code := EXIT_FAILURE\<rparr>,
            w\<lparr>stderr := stderr w @ [(True, ''invalid time string'')]\<rparr>)"
proof -
  have nd: "CHR ''.'' \<notin> set s" using assms(1) isdigit_point by auto
  have ns: "\<forall>c \<in> set s. \<not> isspace c" using assms(1) by (simp add: digit_not_space)
  let ?fmt = "touch_parse_time_fmt (length s) False"
  have r: "\<And>rest tm'. strptime s ?fmt tm_zero = Some (rest, tm') \<Longrightarrow> rest \<noteq> []"
  proof -
    fix rest tm'
    assume a: "strptime s ?fmt tm_zero = Some (rest, tm')"
    show "rest \<noteq> []"
    proof (cases "length s < 10")
      case True
      with a have "strptime s (concat (map (\<lambda>c. [CHR ''%'', c]) ''mdHM'') @ []) tm_zero =
                     Some (rest, tm')"
        by (simp add: touch_parse_time_fmt_short)
      from strptime_leaves_rest [OF this _ ns] assms(2) assms(4) show ?thesis by simp
    next
      case False
      with a assms(6)
      have "strptime s (concat (map (\<lambda>c. [CHR ''%'', c]) ''ymdHM'') @ []) tm_zero =
              Some (rest, tm')"
        by (simp add: touch_parse_time_fmt_year)
      from strptime_leaves_rest [OF this _ ns] False assms(5) show ?thesis by simp
    qed
  qed
  show ?thesis
    unfolding touch_parse_time_by_strptime [OF assms(2) assms(3)]
    using nd r by (auto split: option.splits)
qed

lemma touch_parse_time_digits_point_rejected:
  assumes "\<forall>c \<in> set ds. isdigit c" and "\<forall>c \<in> set ss. isdigit c" and "length ss = 2"
      and "length ds = 9 \<or> length ds = 11"
  shows "touch_parse_time p (t, w) (ds @ CHR ''.'' # ss) =
           (t\<lparr>status_code := EXIT_FAILURE\<rparr>,
            w\<lparr>stderr := stderr w @ [(True, ''invalid time string'')]\<rparr>)"
proof -
  let ?s = "ds @ CHR ''.'' # ss"
  have len: "length ?s - 3 = length ds" using assms(3) by simp
  have l8: "8 \<le> length ?s" and l15: "length ?s \<le> 15" using assms(3) assms(4) by auto
  have "strptime ?s (touch_parse_time_fmt (length ds) True) tm_zero = None"
  proof (cases "length ds = 9")
    case True
    from strptime_point_fails [OF assms(1) assms(2), of "''mdHM''" tm_zero] True
    show ?thesis by (simp add: touch_parse_time_fmt_short)
  next
    case False
    then have 11: "length ds = 11" using assms(4) by simp
    from strptime_point_fails [OF assms(1) assms(2), of "''ymdHM''" tm_zero] 11
    show ?thesis by (simp add: touch_parse_time_fmt_year)
  qed
  then show ?thesis
    unfolding touch_parse_time_by_strptime [OF l8 l15] len by simp
qed




end
